theory Spec2Isabelle
  imports Complex_Main
begin

section \<open>BEL Commons (pybel-web): shared data model\<close>

text \<open>
  The repository is glue code over Flask, Flask-Admin, Flask-Security, SQLAlchemy and
  Celery. The embedding keeps the control flow of each handler and task as it is written
  and makes every effect explicit: the database session is a pair of a working copy and
  the committed rows, sent mail is an outbox, raised exceptions are values. Calls into
  libraries whose code is not part of the repository (the BEL parser, the graph union,
  the ORM's string conversions, the scoring routine) are fields of an environment record,
  so that every theorem holds for whatever those libraries compute.
\<close>

subsection \<open>Users\<close>

text \<open>
  The attributes of \<^verbatim>\<open>pybel_web.models.User\<close> (and of Flask-Security's
  \<^verbatim>\<open>current_user\<close> proxy) that the sources read. \<^verbatim>\<open>admin\<close> is the attribute
  read by \<^verbatim>\<open>admin_service.py\<close>, \<^verbatim>\<open>is_admin\<close> the one read by \<^verbatim>\<open>admin_utils.py\<close>
  and \<^verbatim>\<open>application_utils.py\<close>.
\<close>

record user =
  user_id :: nat
  email :: string
  is_authenticated :: bool
  is_admin :: bool
  admin :: bool
  is_scai :: bool

subsection \<open>HTTP responses\<close>

datatype url =
    Url_for string "(string \<times> string) list"
  | Url_for_security string "(string \<times> string) list"

datatype 'page response =
    Page 'page
  | Redirect url
  | Abort nat string

section \<open>Administrative model views\<close>

text \<open>
  \<^verbatim>\<open>admin_utils.py\<close> declares \<^verbatim>\<open>ModelView\<close> and its subclasses, which only set
  \<^verbatim>\<open>column_exclude_list\<close>; \<^verbatim>\<open>application_utils.build_project_view\<close> declares
  \<^verbatim>\<open>ProjectView\<close>, a subclass of Flask-Admin's \<^verbatim>\<open>ModelViewBase\<close> with a predicate of
  its own.
\<close>

datatype view_class =
    ModelView | NetworkView | ReportView | NodeView | EdgeView | CitationView
  | EvidenceView | ExperimentView | UserView | ProjectView

datatype model_class =
    User | Role | Namespace | Annotation | Network | Node | Edge | Citation | Evidence
  | Author | Report | Experiment | Query | Assembly | EdgeVote | EdgeComment | Project

text \<open>\<^verbatim>\<open>is_accessible\<close>: the override of \<^verbatim>\<open>ProjectView\<close> first, every other class
  inherits the method of \<^verbatim>\<open>ModelView\<close>.\<close>

fun is_accessible :: "view_class \<Rightarrow> user \<Rightarrow> bool" where
  "is_accessible ProjectView current_user = is_authenticated current_user"
| "is_accessible _ current_user = (is_authenticated current_user \<and> is_admin current_user)"

text \<open>\<^verbatim>\<open>inaccessible_callback\<close>: the same body in both classes,
  \<^verbatim>\<open>redirect(url_for_security('login', next=request.url))\<close>.\<close>

definition inaccessible_callback :: "view_class \<Rightarrow> string \<Rightarrow> 'page response" where
  "inaccessible_callback v request_url = Redirect (Url_for_security ''login'' [(''next'', request_url)])"

text \<open>
  Flask-Admin's dispatch (\<^verbatim>\<open>BaseView._handle_view\<close>, run before every exposed
  endpoint of a view): when \<^verbatim>\<open>is_accessible()\<close> is false the response is the result of
  \<^verbatim>\<open>inaccessible_callback\<close>, otherwise the endpoint runs. \<open>page\<close> is what the
  endpoint would answer (the table).
\<close>

definition handle_view :: "view_class \<Rightarrow> user \<Rightarrow> string \<Rightarrow> 'page \<Rightarrow> 'page response" where
  "handle_view v current_user request_url page =
     (if \<not> is_accessible v current_user then inaccessible_callback v request_url
      else Page page)"

text \<open>The views registered by \<^verbatim>\<open>FlaskPyBEL._build_admin_service\<close>, in order.\<close>

definition build_admin_service_views :: "(view_class \<times> model_class) list" where
  "build_admin_service_views =
     [(UserView, User), (ModelView, Role), (ModelView, Namespace), (ModelView, Annotation),
      (NetworkView, Network), (NodeView, Node), (EdgeView, Edge), (CitationView, Citation),
      (EvidenceView, Evidence), (ModelView, Author), (ReportView, Report),
      (ExperimentView, Experiment), (ModelView, Query), (ModelView, Assembly),
      (ModelView, EdgeVote), (ModelView, EdgeComment), (ProjectView, Project)]"

text \<open>
  \<^verbatim>\<open>admin_service.py\<close> has classes of its own: \<^verbatim>\<open>ModelView\<close> (guarded by
  \<^verbatim>\<open>current_user.is_authenticated and current_user.admin\<close>), its subclasses
  \<^verbatim>\<open>NetworkView\<close> and \<^verbatim>\<open>UserView\<close>, and a \<^verbatim>\<open>ProjectView\<close> that derives from
  \<^verbatim>\<open>ModelViewBase\<close> and overrides neither method, so that it keeps Flask-Admin's
  defaults (\<^verbatim>\<open>is_accessible\<close> returns \<^verbatim>\<open>True\<close>).
\<close>

datatype service_view_class =
    ServiceModelView | ServiceNetworkView | ServiceUserView | ServiceProjectView

fun service_is_accessible :: "service_view_class \<Rightarrow> user \<Rightarrow> bool" where
  "service_is_accessible ServiceProjectView current_user = True"
| "service_is_accessible _ current_user = (is_authenticated current_user \<and> admin current_user)"

definition service_inaccessible_callback :: "service_view_class \<Rightarrow> string \<Rightarrow> 'page response" where
  "service_inaccessible_callback v request_url = Redirect (Url_for ''login'' [(''next'', request_url)])"

definition service_handle_view ::
  "service_view_class \<Rightarrow> user \<Rightarrow> string \<Rightarrow> 'page \<Rightarrow> 'page response" where
  "service_handle_view v current_user request_url page =
     (if \<not> service_is_accessible v current_user then service_inaccessible_callback v request_url
      else Page page)"

definition admin_service_views :: "(service_view_class \<times> model_class) list" where
  "admin_service_views =
     [(ServiceUserView, User), (ServiceModelView, Role), (ServiceModelView, Namespace),
      (ServiceModelView, Annotation), (ServiceNetworkView, Network), (ServiceModelView, Report),
      (ServiceModelView, Experiment), (ServiceModelView, Query), (ServiceModelView, Assembly),
      (ServiceProjectView, Project)]"

section \<open>Strings\<close>

text \<open>\<^verbatim>\<open>'{}'.format(n)\<close> for a non-negative integer: its decimal digits.\<close>

definition digit :: "nat \<Rightarrow> char" where
  "digit n = ''0123456789'' ! n"

function str_nat :: "nat \<Rightarrow> string" where
  "str_nat n = (if n < 10 then [digit n] else str_nat (n div 10) @ [digit (n mod 10)])"
  by pat_completeness auto
termination
  by (relation "measure id") auto

declare str_nat.simps [simp del]

text \<open>A string between single quotes, as Python prints the \<^verbatim>\<open>repr\<close> of a string that
  holds no quote or escape.\<close>

definition quoted :: "string \<Rightarrow> string" where
  "quoted s = [CHR 0x27] @ s @ [CHR 0x27]"

text \<open>\<^verbatim>\<open>sep.join(xs)\<close>.\<close>

fun join :: "string \<Rightarrow> string list \<Rightarrow> string" where
  "join sep [] = []"
| "join sep [x] = x"
| "join sep (x # y # ys) = x @ sep @ join sep (y # ys)"

text \<open>\<^verbatim>\<open>'{}'.format(d)\<close> for a dictionary from strings to strings, in the order of its
  items.\<close>

definition repr_dict :: "(string \<times> string) list \<Rightarrow> string" where
  "repr_dict d = ''{'' @ join '', '' (map (\<lambda>(k, v). quoted k @ '': '' @ quoted v) d) @ ''}''"

text \<open>\<^verbatim>\<open>'{}'.format(x)\<close> for a string that may be \<^verbatim>\<open>None\<close>.\<close>

definition str_opt :: "string option \<Rightarrow> string" where
  "str_opt x = (case x of None \<Rightarrow> ''None'' | Some s \<Rightarrow> s)"

text \<open>\<^verbatim>\<open>not x\<close> for a string that may be \<^verbatim>\<open>None\<close>.\<close>

definition falsy :: "string option \<Rightarrow> bool" where
  "falsy x = (case x of None \<Rightarrow> True | Some s \<Rightarrow> s = [])"

text \<open>\<^verbatim>\<open>os.path.join(a, b)\<close> on POSIX.\<close>

definition os_path_join :: "string \<Rightarrow> string \<Rightarrow> string" where
  "os_path_join a b =
     (if b \<noteq> [] \<and> hd b = CHR ''/'' then b
      else if a = [] \<or> last a = CHR ''/'' then a @ b
      else a @ ''/'' @ b)"

section \<open>Database rows and the session\<close>

type_synonym bytes = "nat list"

text \<open>
  \<^verbatim>\<open>pybel.manager.models.Network\<close>, with the attributes the sources read:
  \<^verbatim>\<open>id\<close>, \<^verbatim>\<open>name\<close>, \<^verbatim>\<open>version\<close>, \<^verbatim>\<open>blob\<close>, \<^verbatim>\<open>report\<close> (absent for a network
  stored without an upload report, hence the test \<^verbatim>\<open>network.report and ...\<close> in
  \<^verbatim>\<open>iter_public_networks\<close>) with its \<^verbatim>\<open>user\<close> and \<^verbatim>\<open>public\<close>, and \<^verbatim>\<open>users\<close>.
\<close>

record network_report =
  report_owner :: user
  public :: bool

record network =
  network_id :: nat
  network_name :: string
  network_version :: string
  blob :: bytes
  network_report :: "network_report option"
  network_users :: "user list"

text \<open>
  Modelled from the spec: \<^verbatim>\<open>pybel_web.models.Report\<close> is not among the sources; the
  glossary calls it "a database record tracking the status/outcome of one document-upload
  attempt". The fields are the attributes \<^verbatim>\<open>celery_worker.py\<close> reads and writes;
  \<open>report_summary\<close> stands for the columns that \<^verbatim>\<open>fill_out_report\<close> sets.
\<close>

type_synonym graph_summary = "(string \<times> int) list"

record report =
  report_id :: nat
  source_name :: string
  report_user :: user
  infer_origin :: bool
  message :: "string option"
  report_time :: "real option"
  report_network_id :: "nat option"
  report_summary :: "graph_summary option"

text \<open>
  Modelled from the spec: \<^verbatim>\<open>pybel_web.models.Query\<close> is not among the sources; the
  glossary calls it "a persisted record of network-selection and graph-transformation
  parameters". It has no column for a result.
\<close>

record query =
  query_id :: nat
  query_user_id :: "nat option"
  query_network_ids :: "nat list"
  seeding :: string
  pipeline :: string

text \<open>
  Modelled from the spec: \<^verbatim>\<open>pybel_web.models.Experiment\<close> and
  \<^verbatim>\<open>pybel_web.models.Project\<close> are not among the sources; the fields are the attributes
  \<^verbatim>\<open>celery_worker.py\<close> reads and writes.
\<close>

record experiment_row =
  experiment_id :: nat
  experiment_query :: query
  experiment_source :: bytes
  experiment_source_name :: string
  gene_column :: string
  data_column :: string
  permutations :: nat
  experiment_user :: user
  result :: "bytes option"
  completed :: bool

record project =
  project_id :: nat
  project_name :: string
  project_networks :: "network list"

text \<open>
  A \<^verbatim>\<open>pybel.BELGraph\<close> as far as this repository looks into it: \<^verbatim>\<open>graph.name\<close>,
  \<^verbatim>\<open>graph.version\<close>, the metadata dictionary \<^verbatim>\<open>graph.document\<close> (in insertion order)
  and its statements, which only the library reads.
\<close>

record graph =
  graph_name :: "string option"
  graph_version :: "string option"
  document :: "(string \<times> string) list"
  statements :: "string list"

record database =
  reports :: "report list"
  networks :: "network list"
  queries :: "query list"
  experiments :: "experiment_row list"
  projects :: "project list"
  users :: "user list"

text \<open>
  Exceptions as values: the class that the \<^verbatim>\<open>except\<close> clauses test, and \<^verbatim>\<open>str(e)\<close>.
  Every kind derives from \<^verbatim>\<open>Exception\<close>; \<open>OtherException c\<close> is an exception of any
  other class \<open>c\<close> that does. \<open>InconsistentDefinitionError\<close> carries its attributes
  \<^verbatim>\<open>definition\<close> and \<^verbatim>\<open>line_number\<close>.
\<close>

datatype exc_kind =
    ConnectionError
  | InconsistentDefinitionError string nat
  | IntegrityError
  | OperationalError
  | MultipleResultsFound
  | AttributeError
  | KeyError
  | ValueError
  | DetachedInstanceError
  | OtherException string

datatype exc = Exc (kind: exc_kind) (str_exc: string)

datatype 'a result = Returned 'a | Raised exc

record mail =
  subject :: string
  recipients :: "string list"
  body :: string
  sender :: "string \<times> string"
  attachments :: "(string \<times> string \<times> string) list"

text \<open>
  The state that handlers and tasks act on. \<open>session\<close> holds the rows as the objects of
  \<^verbatim>\<open>manager.session\<close> show them, pending changes included; \<open>stored\<close> holds the
  committed rows. \<open>commits\<close> counts the calls of \<^verbatim>\<open>manager.session.commit()\<close>,
  \<open>insertions\<close> the calls of \<^verbatim>\<open>manager.insert_graph\<close>. \<open>outbox\<close> is the mail handed
  to the mail extension, \<open>files\<close> the calls of \<^verbatim>\<open>to_bel_path\<close> (the path and the graph
  written there), \<open>flashes\<close> the flashed messages.
\<close>

record world =
  session :: database
  stored :: database
  commits :: nat
  insertions :: nat
  session_closed :: bool
  outbox :: "mail list"
  files :: "(string \<times> graph) list"
  flashes :: "(string \<times> string) list"

text \<open>
  \<^verbatim>\<open>manager.session.commit()\<close> raises or stores the pending changes. Whether the
  \<open>k\<close>-th commit of a run raises is not decided by this repository: \<open>commit_outcome k\<close>
  is the exception it raises, if any.
\<close>

definition session_commit :: "(nat \<Rightarrow> exc option) \<Rightarrow> world \<Rightarrow> exc option \<times> world" where
  "session_commit commit_outcome w =
     (case commit_outcome (commits w) of
        Some e \<Rightarrow> (Some e, w\<lparr>commits := Suc (commits w)\<rparr>)
      | None \<Rightarrow> (None, w\<lparr>stored := session w, commits := Suc (commits w)\<rparr>))"

definition session_rollback :: "world \<Rightarrow> world" where
  "session_rollback w = w\<lparr>session := stored w\<rparr>"

definition session_close :: "world \<Rightarrow> world" where
  "session_close w = w\<lparr>session_closed := True\<rparr>"

text \<open>\<^verbatim>\<open>session.query(Model).get(id)\<close>: the row with that primary key, or \<^verbatim>\<open>None\<close>.\<close>

definition get_by :: "('a \<Rightarrow> nat) \<Rightarrow> nat \<Rightarrow> 'a list \<Rightarrow> 'a option" where
  "get_by key i rows = find (\<lambda>r. key r = i) rows"

text \<open>An attribute assignment on a row object of the session.\<close>

definition update_by :: "('a \<Rightarrow> nat) \<Rightarrow> nat \<Rightarrow> ('a \<Rightarrow> 'a) \<Rightarrow> 'a list \<Rightarrow> 'a list" where
  "update_by key i f rows = map (\<lambda>r. if key r = i then f r else r) rows"

section \<open>The network loader of the project view (\<^verbatim>\<open>application_utils.py\<close>)\<close>

text \<open>
  What the loader reads from outside this repository: the rows of the \<^verbatim>\<open>Network\<close>
  table, SQL's \<^verbatim>\<open>ILIKE '%term%'\<close> on the name, \<^verbatim>\<open>User.get_owned_networks\<close>,
  \<^verbatim>\<open>User.get_shared_networks\<close>, \<^verbatim>\<open>manager.list_recent_networks()\<close> and the users of
  the role \<^verbatim>\<open>scai\<close>.
\<close>

record loader_env =
  network_table :: "network list"
  ilike :: "string \<Rightarrow> string \<Rightarrow> bool"
  get_owned_networks :: "user \<Rightarrow> network list"
  get_shared_networks :: "user \<Rightarrow> network list"
  list_recent_networks :: "network list"
  scai_role_users :: "user list"

definition iter_public_networks :: "network list \<Rightarrow> network list" where
  "iter_public_networks recent =
     filter (\<lambda>network. case network_report network of None \<Rightarrow> False | Some r \<Rightarrow> public r) recent"

text \<open>
  A SQLAlchemy query is a description that only \<^verbatim>\<open>.all()\<close> executes: the filters added
  so far, the offset and the limit.
\<close>

record network_query =
  query_filters :: "(network \<Rightarrow> bool) list"
  query_offset :: nat
  query_limit :: "nat option"

definition query_all :: "network list \<Rightarrow> network_query \<Rightarrow> network list" where
  "query_all table q =
     (let rows = drop (query_offset q) (filter (\<lambda>n. list_all (\<lambda>p. p n) (query_filters q)) table)
      in case query_limit q of None \<Rightarrow> rows | Some l \<Rightarrow> take l rows)"

text \<open>The set \<^verbatim>\<open>allowed_network_ids\<close> that \<^verbatim>\<open>get_list\<close> builds for a user who is
  not an admin.\<close>

definition allowed_network_ids :: "loader_env \<Rightarrow> user \<Rightarrow> nat set" where
  "allowed_network_ids env current_user =
     (let network_chain = get_owned_networks env current_user
            @ get_shared_networks env current_user
            @ iter_public_networks (list_recent_networks env);
          ids = set (map network_id network_chain)
      in if is_scai current_user
         then fold (\<lambda>u acc. fold (\<lambda>network acc'. insert (network_id network) acc')
                               (get_owned_networks env u) acc)
                (scai_role_users env) ids
         else ids)"

text \<open>
  \<^verbatim>\<open>get_list\<close> up to the point where it either returns \<^verbatim>\<open>[]\<close> itself or executes
  a query: \<open>None\<close> is the early return, \<open>Some q\<close> the query it hands to \<^verbatim>\<open>.all()\<close>.
\<close>

definition get_list_query :: "loader_env \<Rightarrow> user \<Rightarrow> string \<Rightarrow> nat \<Rightarrow> nat \<Rightarrow> network_query option" where
  "get_list_query env current_user term offset limit =
     (let query = \<lparr>query_filters = [\<lambda>n. ilike env (network_name n) term],
                   query_offset = 0, query_limit = None\<rparr>
      in if \<not> is_admin current_user then
           (let allowed = allowed_network_ids env current_user
            in if allowed = {} then None
               else Some (query\<lparr>query_filters := query_filters query @ [\<lambda>n. network_id n \<in> allowed],
                                query_offset := offset, query_limit := Some limit\<rparr>))
         else Some (query\<lparr>query_offset := offset, query_limit := Some limit\<rparr>))"

definition get_list :: "loader_env \<Rightarrow> user \<Rightarrow> string \<Rightarrow> nat \<Rightarrow> nat \<Rightarrow> network list" where
  "get_list env current_user term offset limit =
     (case get_list_query env current_user term offset limit of
        None \<Rightarrow> []
      | Some q \<Rightarrow> query_all (network_table env) q)"

section \<open>Route handlers (\<^verbatim>\<open>main_service.py\<close>)\<close>

type_synonym overlap_dict = "(string \<times> nat) list"

datatype template_value = Int_value nat | Overlap_value overlap_dict

datatype page =
    Render_template string "(string \<times> template_value) list"
  | Rendered string

record pybel_tools_query =
  network_ids :: "nat list"
  seeds :: string
  protocol :: string

text \<open>
  What the handlers call outside \<^verbatim>\<open>main_service.py\<close>: the helpers of
  \<^verbatim>\<open>pybel_web.utils\<close> and \<^verbatim>\<open>pybel_web.models\<close> (not among the sources) and the
  library. \<open>safe_get_query\<close> answers with the query or with the HTTP error it aborts
  with; \<open>next_query_id\<close> is the primary key the database gives a new \<^verbatim>\<open>Query\<close> row.
\<close>

record web_env =
  commit_outcome :: "nat \<Rightarrow> exc option"
  get_network_ids_with_permission_helper :: "user \<Rightarrow> database \<Rightarrow> nat set"
  from_query_args :: "database \<Rightarrow> nat \<Rightarrow> user \<Rightarrow> query"
  from_query :: "database \<Rightarrow> pybel_tools_query \<Rightarrow> user \<Rightarrow> query"
  query_form_to_dict :: "(string \<times> string) list \<Rightarrow> (string \<times> string) list"
  from_json :: "(string \<times> string) list \<Rightarrow> pybel_tools_query"
  next_query_id :: "query list \<Rightarrow> nat"
  safe_get_query :: "user \<Rightarrow> database \<Rightarrow> nat \<Rightarrow> (nat \<times> string) + query"
  run :: "query \<Rightarrow> database \<Rightarrow> graph"
  calculate_overlap_dict :: "graph \<Rightarrow> string \<Rightarrow> graph \<Rightarrow> string \<Rightarrow> overlap_dict"
  from_bytes :: "bytes \<Rightarrow> bool option \<Rightarrow> exc + graph"
  config_PYBEL_DS_CHECK_VERSION :: "bool option"
  render_network_summary :: "nat \<Rightarrow> graph \<Rightarrow> string"

text \<open>\<^verbatim>\<open>manager.session.add(query); manager.session.commit()\<close>: the new row gets its
  primary key and is stored, or the commit raises.\<close>

definition add_query_and_commit :: "web_env \<Rightarrow> query \<Rightarrow> world \<Rightarrow> (query result) \<times> world" where
  "add_query_and_commit env q w =
     (let row = q\<lparr>query_id := next_query_id env (queries (session w))\<rparr>;
          w1 = w\<lparr>session := (session w)\<lparr>queries := queries (session w) @ [row]\<rparr>\<rparr>;
          (e, w2) = session_commit (commit_outcome env) w1
      in case e of Some e \<Rightarrow> (Raised e, w2) | None \<Rightarrow> (Returned row, w2))"

definition view_explorer_query_url :: "query \<Rightarrow> url" where
  "view_explorer_query_url q = Url_for ''view_explorer_query'' [(''query_id'', str_nat (query_id q))]"


definition view_explore_network ::
  "web_env \<Rightarrow> user \<Rightarrow> nat \<Rightarrow> world \<Rightarrow> (page response result) \<times> world" where
  "view_explore_network env current_user network_id' w =
     (if network_id' \<notin> get_network_ids_with_permission_helper env current_user (session w)
      then (Returned (Abort 403 (''Insufficient rights for network '' @ str_nat network_id')), w)
      else
        (let query = from_query_args env (session w) network_id' current_user;
             (r, w') = add_query_and_commit env query w
         in case r of
              Raised e \<Rightarrow> (Raised e, w')
            | Returned row \<Rightarrow> (Returned (Redirect (view_explorer_query_url row)), w')))"

text \<open>\<^verbatim>\<open>repr(type(e))\<close>, as the flashed message of \<^verbatim>\<open>view_summary\<close> prints it.\<close>

fun class_name :: "exc_kind \<Rightarrow> string" where
  "class_name ConnectionError = ''requests.exceptions.ConnectionError''"
| "class_name (InconsistentDefinitionError d l) =
     ''pybel.parser.parse_exceptions.InconsistentDefinitionError''"
| "class_name IntegrityError = ''sqlalchemy.exc.IntegrityError''"
| "class_name OperationalError = ''sqlalchemy.exc.OperationalError''"
| "class_name MultipleResultsFound = ''sqlalchemy.orm.exc.MultipleResultsFound''"
| "class_name AttributeError = ''AttributeError''"
| "class_name KeyError = ''KeyError''"
| "class_name ValueError = ''ValueError''"
| "class_name DetachedInstanceError = ''sqlalchemy.orm.exc.DetachedInstanceError''"
| "class_name (OtherException c) = c"

definition type_repr :: "exc \<Rightarrow> string" where
  "type_repr e = ''<class '' @ quoted (class_name (kind e)) @ ''>''"

definition problem_getting_graph :: "nat \<Rightarrow> exc \<Rightarrow> world \<Rightarrow> (page response result) \<times> world" where
  "problem_getting_graph network_id' e w =
     (Returned (Redirect (Url_for ''view_networks'' [])),
      w\<lparr>flashes := flashes w @
          [(''Problem getting graph '' @ str_nat network_id' @ '': ('' @ type_repr e @ '') '' @ str_exc e,
            ''error'')]\<rparr>)"

text \<open>
  \<^verbatim>\<open>view_summary\<close>. \<^verbatim>\<open>manager.get_network_by_id\<close> is the row with that key or
  \<^verbatim>\<open>None\<close>, and \<^verbatim>\<open>None.blob\<close> raises the \<^verbatim>\<open>AttributeError\<close> that the handler's
  \<^verbatim>\<open>except Exception\<close> catches.
\<close>

definition view_summary ::
  "web_env \<Rightarrow> user \<Rightarrow> nat \<Rightarrow> world \<Rightarrow> (page response result) \<times> world" where
  "view_summary env current_user network_id' w =
     (if network_id' \<notin> get_network_ids_with_permission_helper env current_user (session w)
      then (Returned (Abort 403 (''Insufficient rights for network '' @ str_nat network_id')), w)
      else
        (case get_by network_id network_id' (networks (session w)) of
           None \<Rightarrow>
             problem_getting_graph network_id'
               (Exc AttributeError (quoted ''NoneType'' @ '' object has no attribute '' @ quoted ''blob'')) w
         | Some network \<Rightarrow>
             (case from_bytes env (blob network) (config_PYBEL_DS_CHECK_VERSION env) of
                Inl e \<Rightarrow> problem_getting_graph network_id' e w
              | Inr graph \<Rightarrow>
                  (Returned (Page (Rendered (render_network_summary env network_id' graph))), w))))"

definition view_query_comparison ::
  "web_env \<Rightarrow> user \<Rightarrow> nat \<Rightarrow> nat \<Rightarrow> world \<Rightarrow> (page response result) \<times> world" where
  "view_query_comparison env current_user query_1_id query_2_id w =
     (case safe_get_query env current_user (session w) query_1_id of
        Inl (code, description) \<Rightarrow> (Returned (Abort code description), w)
      | Inr query_1 \<Rightarrow>
     (case safe_get_query env current_user (session w) query_2_id of
        Inl (code, description) \<Rightarrow> (Returned (Abort code description), w)
      | Inr query_2 \<Rightarrow>
         (let query_1_result = run env query_1 (session w);
              query_2_result = run env query_2 (session w);
              data = calculate_overlap_dict env
                       query_1_result (''Query '' @ str_nat query_1_id)
                       query_2_result (''Query '' @ str_nat query_2_id)
          in (Returned (Page (Render_template ''query_comparison.html''
                [(''query_1_id'', Int_value query_1_id),
                 (''query_2_id'', Int_value query_2_id),
                 (''data'', Overlap_value data)])), w))))"

section \<open>Background tasks (\<^verbatim>\<open>celery_worker.py\<close>)\<close>

subsection \<open>Constants\<close>

definition CHARLIE_EMAIL :: string where
  "CHARLIE_EMAIL = ''charles.hoyt@scai.fraunhofer.de''"

definition DANIEL_EMAIL :: string where
  "DANIEL_EMAIL = ''daniel.domingo.fernandez@scai.fraunhofer.de''"

definition pbw_sender :: "string \<times> string" where
  "pbw_sender = (''PyBEL Web'', ''pybel@scai.fraunhofer.de'')"

text \<open>\<^verbatim>\<open>integrity_message.format(name, version)\<close>.\<close>

definition integrity_message :: "string \<Rightarrow> string \<Rightarrow> string" where
  "integrity_message name version =
     ''A graph with the same name ('' @ name @ '') and version ('' @ version
     @ '') already exists. If there have been changes since the last version, try bumping the version number.''"

text \<open>
  The keys of \<^verbatim>\<open>graph.document\<close> come from \<^verbatim>\<open>pybel.constants\<close>, which is not among
  the sources; their values are those of that library.
\<close>

definition METADATA_DESCRIPTION :: string where
  "METADATA_DESCRIPTION = ''description''"

definition METADATA_CONTACT :: string where
  "METADATA_CONTACT = ''contact''"

definition METADATA_LICENSES :: string where
  "METADATA_LICENSES = ''licenses''"

definition dumb_belief_stuff :: "(string \<times> string list) list" where
  "dumb_belief_stuff =
     [(METADATA_DESCRIPTION, [''Document description'']),
      (METADATA_CONTACT, [''your@email.com'']),
      (METADATA_LICENSES, [''Document license''])]"

subsection \<open>What the tasks call outside this file\<close>

text \<open>The objects \<^verbatim>\<open>to_bytes\<close> is applied to.\<close>

datatype py_object = Graph_object graph | Network_object network

datatype py_value = Py_none | Py_int int | Py_str string

text \<open>
  \<open>mail_in_extensions\<close> is \<^verbatim>\<open>'mail' in app.extensions\<close>; \<open>commit_raises k\<close> is the
  exception that the \<open>k\<close>-th \<^verbatim>\<open>manager.session.commit()\<close> of the run raises, if any.
\<close>

record app_env =
  mail_in_extensions :: bool
  commit_raises :: "nat \<Rightarrow> exc option"

text \<open>
  For \<^verbatim>\<open>async_parser\<close>: the parser, the enrichment functions (each changes the graph in
  place and may raise after changing it), \<^verbatim>\<open>manager.insert_graph\<close> (which adds the
  network row and commits, or raises), the two helpers of \<^verbatim>\<open>pybel_web.utils\<close>,
  \<^verbatim>\<open>to_bytes\<close>, \<^verbatim>\<open>hashlib.sha1(...).hexdigest()\<close>, the \<^verbatim>\<open>__str__\<close> of the rows and
  of the graph, and the two readings of \<^verbatim>\<open>time.time()\<close>.
\<close>

record parser_env = app_env +
  parse_graph :: "report \<Rightarrow> exc + graph"
  add_canonical_names :: "graph \<Rightarrow> graph \<times> exc option"
  add_identifiers :: "graph \<Rightarrow> graph \<times> exc option"
  infer_central_dogma :: "graph \<Rightarrow> graph \<times> exc option"
  enrich_pubmed_citations :: "graph \<Rightarrow> graph \<times> exc option"
  config_PYBEL_USE_EDGE_STORE :: "bool option"
  insert_graph :: "graph \<Rightarrow> bool \<Rightarrow> database \<Rightarrow> exc + network"
  make_graph_summary :: "graph \<Rightarrow> graph_summary"
  fill_out_report :: "network \<Rightarrow> report \<Rightarrow> graph_summary \<Rightarrow> exc + report"
  to_bytes :: "py_object \<Rightarrow> bytes"
  sha1_hexdigest :: "bytes \<Rightarrow> string"
  str_network :: "network \<Rightarrow> string"
  str_user :: "user \<Rightarrow> string"
  str_graph :: "graph \<Rightarrow> string"
  time_started :: real
  time_filled :: real

subsection \<open>\<^verbatim>\<open>async_parser\<close>\<close>

definition worker_commit :: "'a app_env_scheme \<Rightarrow> world \<Rightarrow> exc option \<times> world" where
  "worker_commit env w = session_commit (commit_raises env) w"

definition send_message :: "string \<Rightarrow> string list \<Rightarrow> string \<Rightarrow> world \<Rightarrow> world" where
  "send_message subject' recipients' body' w =
     w\<lparr>outbox := outbox w @
         [\<lparr>subject = subject', recipients = recipients', body = body', sender = pbw_sender,
           attachments = []\<rparr>]\<rparr>"

definition make_mail :: "'a app_env_scheme \<Rightarrow> report \<Rightarrow> string \<Rightarrow> string \<Rightarrow> world \<Rightarrow> world" where
  "make_mail env report subject' body' w =
     (if \<not> mail_in_extensions env then w
      else send_message subject' [email (report_user report)] body' w)"

definition set_message :: "nat \<Rightarrow> string \<Rightarrow> world \<Rightarrow> world" where
  "set_message rid body' w =
     w\<lparr>session := (session w)\<lparr>reports :=
         update_by report_id rid (\<lambda>r. r\<lparr>message := Some body'\<rparr>) (reports (session w))\<rparr>\<rparr>"

text \<open>\<^verbatim>\<open>finish_parsing\<close>; \<^verbatim>\<open>log_exception\<close> only decides whether the body is
  logged, and the log is not part of the state.\<close>

definition finish_parsing ::
  "'a app_env_scheme \<Rightarrow> report \<Rightarrow> string \<Rightarrow> string \<Rightarrow> bool \<Rightarrow> world \<Rightarrow> py_value result \<times> world" where
  "finish_parsing env report subject' body' log_exception w =
     (let w1 = make_mail env report subject' body' w;
          w2 = set_message (report_id report) body' w1;
          (e, w3) = worker_commit env w2
      in case e of Some e \<Rightarrow> (Raised e, w3) | None \<Rightarrow> (Returned (Py_str body'), w3))"

text \<open>The dictionary comprehension \<^verbatim>\<open>problem\<close>.\<close>

definition problem :: "graph \<Rightarrow> (string \<times> string) list" where
  "problem graph =
     filter (\<lambda>(k, v). case map_of dumb_belief_stuff k of None \<Rightarrow> False | Some vs \<Rightarrow> v \<in> set vs)
       (document graph)"

text \<open>\<^verbatim>\<open>Query.one_or_none()\<close>.\<close>

definition one_or_none :: "'a list \<Rightarrow> exc + 'a option" where
  "one_or_none rows =
     (case rows of
        [] \<Rightarrow> Inr None
      | [r] \<Rightarrow> Inr (Some r)
      | _ \<Rightarrow> Inl (Exc MultipleResultsFound ''Multiple rows were found for one_or_none()''))"

text \<open>
  Lines 214 to 240: the branch \<^verbatim>\<open>if network is not None\<close>. A network without a report
  makes \<^verbatim>\<open>network.report.user\<close> raise; \<^verbatim>\<open>app.extensions['mail']\<close> raises when the
  extension is missing, since this branch does not go through \<^verbatim>\<open>make_mail\<close>.
\<close>

definition existing_network ::
  "parser_env \<Rightarrow> report \<Rightarrow> graph \<Rightarrow> network \<Rightarrow> world \<Rightarrow> py_value result \<times> world" where
  "existing_network env report graph network w =
     (let message' = integrity_message (str_opt (graph_name graph)) (str_opt (graph_version graph))
      in case network_report network of
           None \<Rightarrow>
             (Raised (Exc AttributeError
                (quoted ''NoneType'' @ '' object has no attribute '' @ quoted ''user'')), w)
         | Some network_report' \<Rightarrow>
             if report_owner network_report' = report_user report then
               finish_parsing env report (''Uploading Failed for '' @ source_name report) message' True w
             else if sha1_hexdigest env (blob network)
                       \<noteq> sha1_hexdigest env (to_bytes env (Network_object network)) then
               (if \<not> mail_in_extensions env then (Raised (Exc KeyError (quoted ''mail'')), w)
                else
                  (let w1 = send_message ''Possible attempted Espionage'' [CHARLIE_EMAIL, DANIEL_EMAIL]
                              (''The following user ('' @ str_nat (user_id (report_user report)) @ '' ''
                               @ email (report_user report)
                               @ '') may have attempted espionage of network: ''
                               @ str_network env network) w
                   in finish_parsing env report (''Upload Failed for '' @ source_name report)
                        message' True w1))
             else
               (let network' = network\<lparr>network_users := network_users network @ [report_user report]\<rparr>;
                    w1 = w\<lparr>session := (session w)\<lparr>networks :=
                            update_by network_id (network_id network) (\<lambda>n. network')
                              (networks (session w))\<rparr>\<rparr>;
                    (e, w2) = worker_commit env w1
                in case e of
                     Some e \<Rightarrow> (Raised e, w2)
                   | None \<Rightarrow>
                       finish_parsing env report (''Granted Rights from '' @ source_name report)
                         (''Granted rights for '' @ str_network env network' @ '' to ''
                          @ str_user env (report_user report) @ '' after parsing ''
                          @ source_name report)
                         False w2))"

text \<open>
  Lines 242 to 258: the enrichment. The result is the graph as the functions left it and
  the exception that ended the block, if any.
\<close>

definition enrich :: "parser_env \<Rightarrow> report \<Rightarrow> graph \<Rightarrow> graph \<times> exc option" where
  "enrich env report graph =
     (let (g1, e1) = add_canonical_names env graph in
      case e1 of Some e \<Rightarrow> (g1, Some e) | None \<Rightarrow>
     (let (g2, e2) = add_identifiers env g1 in
      case e2 of Some e \<Rightarrow> (g2, Some e) | None \<Rightarrow>
     (let (g3, e3) = (if infer_origin report then infer_central_dogma env g2 else (g2, None)) in
      case e3 of Some e \<Rightarrow> (g3, Some e) | None \<Rightarrow>
      enrich_pubmed_citations env g3)))"

definition is_database_error :: "exc \<Rightarrow> bool" where
  "is_database_error e = (kind e = IntegrityError \<or> kind e = OperationalError)"

text \<open>Lines 298 to 305: the handler of the last \<^verbatim>\<open>try\<close>, and its \<^verbatim>\<open>finally\<close>.\<close>

definition report_unsuccessful ::
  "parser_env \<Rightarrow> report \<Rightarrow> exc \<Rightarrow> world \<Rightarrow> py_value result \<times> world" where
  "report_unsuccessful env report e w =
     (let w1 = session_rollback w;
          w2 = make_mail env report (''Report unsuccessful for '' @ source_name report) (str_exc e) w1
      in (Returned (Py_int (- 1)), session_close w2))"

text \<open>Lines 283 to 305: the summary, the report and the mail after a successful insertion.\<close>

definition complete_report ::
  "parser_env \<Rightarrow> report \<Rightarrow> graph \<Rightarrow> network \<Rightarrow> world \<Rightarrow> py_value result \<times> world" where
  "complete_report env report graph network w =
     (let graph_summary' = make_graph_summary env graph
      in case fill_out_report env network report graph_summary' of
           Inl e \<Rightarrow> report_unsuccessful env report e w
         | Inr filled \<Rightarrow>
             (let report' = filled\<lparr>report_time := Some (time_filled env - time_started env)\<rparr>;
                  w1 = w\<lparr>session := (session w)\<lparr>reports :=
                          update_by report_id (report_id report) (\<lambda>r. report')
                            (reports (session w))\<rparr>\<rparr>;
                  (e, w2) = worker_commit env w1
              in case e of
                   Some e \<Rightarrow> report_unsuccessful env report e w2
                 | None \<Rightarrow>
                     (let w3 = make_mail env report
                            (''Successfully uploaded '' @ source_name report @ '' (''
                             @ str_graph env graph @ '')'')
                            (source_name report @ '' ('' @ str_graph env graph
                             @ '') is done parsing. Check the network list page.'') w2
                      in (Returned (Py_int (int (network_id network))), session_close w3))))"

text \<open>Lines 242 to 305: enrichment, insertion and report of a graph that is new.\<close>

definition upload_graph ::
  "parser_env \<Rightarrow> report \<Rightarrow> graph \<Rightarrow> world \<Rightarrow> py_value result \<times> world" where
  "upload_graph env report graph w =
     (let (graph', enrich_error) = enrich env report graph;
          w1 = (case enrich_error of
                  Some e \<Rightarrow> if is_database_error e then session_rollback w else w
                | None \<Rightarrow> w);
          upload_failed_text = ''Upload Failed for '' @ source_name report;
          store_parts = (case config_PYBEL_USE_EDGE_STORE env of None \<Rightarrow> True | Some b \<Rightarrow> b);
          w2 = w1\<lparr>insertions := Suc (insertions w1)\<rparr>
      in case insert_graph env graph' store_parts (session w1) of
           Inl e \<Rightarrow>
             (let w3 = session_rollback w2;
                  message' =
                    (if kind e = IntegrityError then
                       integrity_message (str_opt (graph_name graph')) (str_opt (graph_version graph'))
                     else if kind e = OperationalError then ''Database is locked. Unable to upload.''
                     else ''Error storing in database: '' @ str_exc e)
              in finish_parsing env report upload_failed_text message' True w3)
         | Inr network \<Rightarrow>
             (let inserted = (session w2)\<lparr>networks := networks (session w2) @ [network]\<rparr>;
                  w3 = w2\<lparr>session := inserted, stored := inserted\<rparr>
              in complete_report env report graph' network w3))"

text \<open>Lines 193 to 212: the checks on a parsed graph, and the lookup by name and version.\<close>

definition check_and_store ::
  "parser_env \<Rightarrow> report \<Rightarrow> graph \<Rightarrow> world \<Rightarrow> py_value result \<times> world" where
  "check_and_store env report graph w =
     (if falsy (graph_name graph) then
        finish_parsing env report (''Parsing Failed for '' @ source_name report)
          (''Parsing failed for '' @ source_name report @ '' because SET DOCUMENT Name was missing.'')
          True w
      else if falsy (graph_version graph) then
        finish_parsing env report (''Parsing Failed for '' @ source_name report)
          (''Parsing failed for '' @ source_name report @ '' because SET DOCUMENT Version was missing.'')
          True w
      else if problem graph \<noteq> [] then
        finish_parsing env report (''Rejected '' @ source_name report)
          (source_name report @ '' was rejected because it has '' @ [CHR 0x22] @ ''default''
           @ [CHR 0x22] @ '' metadata: '' @ repr_dict (problem graph))
          True w
      else
        (case one_or_none
                (filter (\<lambda>n. Some (network_name n) = graph_name graph
                            \<and> Some (network_version n) = graph_version graph)
                   (networks (session w))) of
           Inl e \<Rightarrow> (Raised e, w)
         | Inr (Some network) \<Rightarrow> existing_network env report graph network w
         | Inr None \<Rightarrow> upload_graph env report graph w))"

definition async_parser :: "parser_env \<Rightarrow> nat \<Rightarrow> world \<Rightarrow> py_value result \<times> world" where
  "async_parser env rid w =
     (case get_by report_id rid (reports (session w)) of
        None \<Rightarrow> (Raised (Exc ValueError (''Report '' @ str_nat rid @ '' not found'')), w)
      | Some report \<Rightarrow>
          (case parse_graph env report of
             Inl e \<Rightarrow>
               (case kind e of
                  ConnectionError \<Rightarrow>
                    finish_parsing env report (''Parsing Failed for '' @ source_name report)
                      ''Connection to resource could not be established.'' True w
                | InconsistentDefinitionError definition' line_number \<Rightarrow>
                    finish_parsing env report (''Parsing Failed for '' @ source_name report)
                      (''Parsing failed for '' @ source_name report @ '' because '' @ definition'
                       @ '' was redefined on line '' @ str_nat line_number @ ''.'')
                      True w
                | _ \<Rightarrow>
                    finish_parsing env report (''Parsing Failed for '' @ source_name report)
                      (''Parsing failed for '' @ source_name report @ '' from a general error: ''
                       @ str_exc e)
                      True w)
           | Inr graph \<Rightarrow> check_and_store env report graph w))"

subsection \<open>\<^verbatim>\<open>merge_project\<close>\<close>

text \<open>
  For \<^verbatim>\<open>merge_project\<close>: \<^verbatim>\<open>Network.as_bel\<close>, \<^verbatim>\<open>pybel.struct.union\<close>, the value of
  \<^verbatim>\<open>uuid.uuid4()\<close> as \<^verbatim>\<open>'{}'.format\<close> prints it, \<^verbatim>\<open>PYBEL_DATA_DIR\<close> and
  \<^verbatim>\<open>to_bel_lines\<close>.
\<close>

record merge_env = app_env +
  as_bel :: "network \<Rightarrow> graph"
  graph_union :: "graph list \<Rightarrow> graph"
  uuid4 :: string
  PYBEL_DATA_DIR :: string
  to_bel_lines :: "graph \<Rightarrow> string list"

definition none_has_no_attribute :: "string \<Rightarrow> exc" where
  "none_has_no_attribute a =
     Exc AttributeError (quoted ''NoneType'' @ '' object has no attribute '' @ quoted a)"

definition merge_project :: "merge_env \<Rightarrow> nat \<Rightarrow> nat \<Rightarrow> world \<Rightarrow> py_value result \<times> world" where
  "merge_project env user_id' project_id' w =
     (let user = get_by user_id user_id' (users (session w));
          project = get_by project_id project_id' (projects (session w))
      in case project of
           None \<Rightarrow> (Raised (none_has_no_attribute ''networks''), w)
         | Some project \<Rightarrow>
             (let graphs = map (as_bel env) (project_networks project);
                  graph = graph_union env graphs;
                  graph = graph\<lparr>graph_name := Some (uuid4 env)\<rparr>;
                  graph = graph\<lparr>graph_version := Some ''1.0.0''\<rparr>
              in if \<not> mail_in_extensions env then
                   (let path = os_path_join (PYBEL_DATA_DIR env) (str_opt (graph_name graph) @ ''.bel'')
                    in (Returned Py_none, w\<lparr>files := files w @ [(path, graph)]\<rparr>))
                 else
                   (let lines = to_bel_lines env graph;
                        s = join [CHR 0x0A] lines
                    in case user of
                         None \<Rightarrow> (Raised (none_has_no_attribute ''email''), w)
                       | Some user \<Rightarrow>
                           (let msg = \<lparr>subject = ''Merged '' @ project_name project @ '' BEL'',
                                       recipients = [email user],
                                       body = ''The BEL documents from '' @ project_name project
                                         @ '' were merged. The resulting BEL script is attached'',
                                       sender = pbw_sender,
                                       attachments = [(''merged.bel'', ''text/plain'', s)]\<rparr>
                            in (Returned (Py_int 1), w\<lparr>outbox := outbox w @ [msg]\<rparr>)))))"

subsection \<open>\<^verbatim>\<open>run_cmpa\<close>\<close>

datatype cell = Null | Text string | Number real

record data_frame =
  df_columns :: "string list"
  df_rows :: "(string \<Rightarrow> cell) list"

type_synonym scores = "(string \<times> real) list"

record cmpa_env = app_env +
  run_query :: "query \<Rightarrow> database \<Rightarrow> graph"
  loads :: "bytes \<Rightarrow> data_frame"
  calculate_scores :: "graph \<Rightarrow> (cell \<rightharpoonup> cell) \<Rightarrow> nat \<Rightarrow> scores"
  dumps :: "scores \<Rightarrow> bytes"

text \<open>
  The dictionary comprehension over
  \<^verbatim>\<open>df.loc[df[gene_column].notnull(), [gene_column, data_column]]\<close>. A missing gene column
  makes \<^verbatim>\<open>df[gene_column]\<close> raise \<^verbatim>\<open>KeyError(gene_column)\<close>; a missing data column makes
  \<^verbatim>\<open>.loc\<close> raise a \<^verbatim>\<open>KeyError\<close> whose argument is the text \<^verbatim>\<open>['<column>'] not in index\<close>,
  which \<^verbatim>\<open>str\<close> prints between double quotes.
\<close>

definition gene_data :: "data_frame \<Rightarrow> string \<Rightarrow> string \<Rightarrow> exc + (cell \<rightharpoonup> cell)" where
  "gene_data df gene_column' data_column' =
     (if gene_column' \<notin> set (df_columns df) then Inl (Exc KeyError (quoted gene_column'))
      else if data_column' \<notin> set (df_columns df) then
        Inl (Exc KeyError ([CHR 0x22] @ ''['' @ quoted data_column' @ ''] not in index'' @ [CHR 0x22]))
      else Inr (fold (\<lambda>row d. d(row gene_column' \<mapsto> row data_column'))
                  (filter (\<lambda>row. row gene_column' \<noteq> Null) (df_rows df)) Map.empty))"

text \<open>
  Reading an attribute of a row after \<^verbatim>\<open>manager.session.commit()\<close>: the commit has expired
  the attributes of the row, so the read has to load them again through the session. Once
  \<^verbatim>\<open>manager.session.close()\<close> has detached the row this raises SQLAlchemy's
  \<^verbatim>\<open>DetachedInstanceError\<close>; \<open>v\<close> is the value that an open session would load.
\<close>

definition read_after_commit :: "world \<Rightarrow> 'a \<Rightarrow> exc + 'a" where
  "read_after_commit w v =
     (if session_closed w then
        Inl (Exc DetachedInstanceError
          ''Instance is not bound to a Session; attribute refresh operation cannot proceed'')
      else Inr v)"

text \<open>
  \<^verbatim>\<open>run_cmpa\<close>. The \<^verbatim>\<open>finally\<close> clause closes the session on both paths; the message and
  the mail are built after it, from \<^verbatim>\<open>experiment.query_id\<close>, \<^verbatim>\<open>experiment.source_name\<close>
  and \<^verbatim>\<open>experiment.user.email\<close>, read in this order.
\<close>

definition run_cmpa :: "cmpa_env \<Rightarrow> nat \<Rightarrow> world \<Rightarrow> py_value result \<times> world" where
  "run_cmpa env experiment_id' w =
     (case get_by experiment_id experiment_id' (experiments (session w)) of
        None \<Rightarrow> (Raised (none_has_no_attribute ''query''), w)
      | Some experiment \<Rightarrow>
          (let graph = run_query env (experiment_query experiment) (session w);
               df = loads env (experiment_source experiment)
           in case gene_data df (gene_column experiment) (data_column experiment) of
                Inl e \<Rightarrow> (Raised e, w)
              | Inr data \<Rightarrow>
                  (let scores = calculate_scores env graph data (permutations experiment);
                       w1 = w\<lparr>session := (session w)\<lparr>experiments :=
                               update_by experiment_id (experiment_id experiment)
                                 (\<lambda>x. x\<lparr>result := Some (dumps env scores), completed := True\<rparr>)
                                 (experiments (session w))\<rparr>\<rparr>;
                       (e, w2) = worker_commit env w1
                   in case e of
                        Some e \<Rightarrow> (Returned (Py_int (- 1)), session_close (session_rollback w2))
                      | None \<Rightarrow>
                          (let w3 = session_close w2
                           in case read_after_commit w3 (query_id (experiment_query experiment)) of
                                Inl e \<Rightarrow> (Raised e, w3)
                              | Inr query_id' \<Rightarrow>
                           (case read_after_commit w3 (experiment_source_name experiment) of
                                Inl e \<Rightarrow> (Raised e, w3)
                              | Inr source_name' \<Rightarrow>
                           (let message' = ''Experiment '' @ str_nat experiment_id' @ '' on query ''
                                  @ str_nat query_id' @ '' with '' @ source_name' @ '' has completed''
                            in if mail_in_extensions env then
                                 (case read_after_commit w3 (email (experiment_user experiment)) of
                                    Inl e \<Rightarrow> (Raised e, w3)
                                  | Inr email' \<Rightarrow>
                                      (Returned (Py_int (int experiment_id')),
                                       send_message ''CMPA Analysis complete'' [email'] message' w3))
                               else (Returned (Py_int (int experiment_id')), w3)))))))"

subsection \<open>Messages and outcomes, as the theorems name them\<close>

text \<open>The message of \<^verbatim>\<open>async_parser\<close> for an exception of \<^verbatim>\<open>report.parse_graph\<close>
  (lines 180 to 191).\<close>

definition parse_failure_message :: "report \<Rightarrow> exc \<Rightarrow> string" where
  "parse_failure_message report e =
     (case kind e of
        ConnectionError \<Rightarrow> ''Connection to resource could not be established.''
      | InconsistentDefinitionError definition' line_number \<Rightarrow>
          ''Parsing failed for '' @ source_name report @ '' because '' @ definition'
          @ '' was redefined on line '' @ str_nat line_number @ ''.''
      | _ \<Rightarrow> ''Parsing failed for '' @ source_name report @ '' from a general error: '' @ str_exc e)"

text \<open>The message of \<^verbatim>\<open>async_parser\<close> for a graph it rejects (lines 193 to 209).\<close>

definition rejection_reason :: "report \<Rightarrow> graph \<Rightarrow> string" where
  "rejection_reason report graph =
     (if falsy (graph_name graph) then
        ''Parsing failed for '' @ source_name report @ '' because SET DOCUMENT Name was missing.''
      else if falsy (graph_version graph) then
        ''Parsing failed for '' @ source_name report @ '' because SET DOCUMENT Version was missing.''
      else
        source_name report @ '' was rejected because it has '' @ [CHR 0x22] @ ''default''
           @ [CHR 0x22] @ '' metadata: '' @ repr_dict (problem graph))"

text \<open>
  What the report holds after a run of \<^verbatim>\<open>async_parser\<close> that returned \<open>v\<close>, from the
  state \<open>w\<close> to the state \<open>w'\<close>: the returned message, committed; or, with the id of
  the new network, the report as \<^verbatim>\<open>fill_out_report\<close> filled it, with the elapsed time,
  committed; or, with \<^verbatim>\<open>-1\<close>, the reports as they were, after the rollback.
\<close>

definition outcome_recorded ::
  "parser_env \<Rightarrow> report \<Rightarrow> world \<Rightarrow> py_value \<Rightarrow> world \<Rightarrow> bool" where
  "outcome_recorded env report w v w' =
     (case v of
        Py_str m \<Rightarrow>
          get_by report_id (report_id report) (reports (stored w')) = Some (report\<lparr>message := Some m\<rparr>)
      | Py_int n \<Rightarrow>
          session_closed w' \<and>
          (if n = - 1 then session w' = stored w' \<and> reports (stored w') = reports (stored w)
           else \<exists>graph network filled.
                  fill_out_report env network report (make_graph_summary env graph) = Inr filled
                \<and> n = int (network_id network)
                \<and> network \<in> set (networks (stored w'))
                \<and> filled\<lparr>report_time := Some (time_filled env - time_started env)\<rparr>
                    \<in> set (reports (stored w'))
                \<and> insertions w' = Suc (insertions w))
      | Py_none \<Rightarrow> False)"

text \<open>The graph that \<^verbatim>\<open>merge_project\<close> writes or sends.\<close>

definition merged_graph :: "merge_env \<Rightarrow> project \<Rightarrow> graph" where
  "merged_graph env project =
     (graph_union env (map (as_bel env) (project_networks project)))
       \<lparr>graph_name := Some (uuid4 env), graph_version := Some ''1.0.0''\<rparr>"

text \<open>The scores that \<^verbatim>\<open>run_cmpa\<close> stores.\<close>

definition cmpa_scores :: "cmpa_env \<Rightarrow> experiment_row \<Rightarrow> (cell \<rightharpoonup> cell) \<Rightarrow> world \<Rightarrow> scores" where
  "cmpa_scores env experiment data w =
     calculate_scores env (run_query env (experiment_query experiment) (session w)) data
       (permutations experiment)"

section \<open>Concrete inputs\<close>

text \<open>Users, networks, queries and environments at which the theorems below are evaluated.\<close>

definition plain_user :: user where
  "plain_user = \<lparr>user_id = 7, email = ''reader@example.org'', is_authenticated = True,
     is_admin = False, admin = False, is_scai = False\<rparr>"

definition other_user :: user where
  "other_user = \<lparr>user_id = 8, email = ''owner@example.org'', is_authenticated = True,
     is_admin = False, admin = False, is_scai = True\<rparr>"

definition net_alpha :: network where
  "net_alpha = \<lparr>network_id = 1, network_name = ''alpha'', network_version = ''1.0.0'',
     blob = [1, 2, 3], network_report = Some \<lparr>report_owner = plain_user, public = False\<rparr>,
     network_users = []\<rparr>"

definition net_beta :: network where
  "net_beta = \<lparr>network_id = 2, network_name = ''beta'', network_version = ''0.1.0'',
     blob = [4, 5], network_report = Some \<lparr>report_owner = other_user, public = True\<rparr>,
     network_users = []\<rparr>"

definition net_gamma :: network where
  "net_gamma = \<lparr>network_id = 3, network_name = ''gamma'', network_version = ''2.0.0'',
     blob = [6], network_report = None, network_users = []\<rparr>"

definition loader_demo :: loader_env where
  "loader_demo = \<lparr>network_table = [net_alpha, net_beta, net_gamma],
     ilike = (\<lambda>name term. take (length term) name = term),
     get_owned_networks = (\<lambda>u. if user_id u = 7 then [net_alpha] else []),
     get_shared_networks = (\<lambda>u. []),
     list_recent_networks = [net_beta, net_gamma],
     scai_role_users = [other_user]\<rparr>"

definition loader_bare :: loader_env where
  "loader_bare = \<lparr>network_table = [net_alpha, net_beta, net_gamma],
     ilike = (\<lambda>name term. take (length term) name = term),
     get_owned_networks = (\<lambda>u. []),
     get_shared_networks = (\<lambda>u. []),
     list_recent_networks = [net_gamma],
     scai_role_users = [other_user]\<rparr>"

definition query_demo :: query where
  "query_demo = \<lparr>query_id = 1, query_user_id = Some 7, query_network_ids = [1],
     seeding = ''[]'', pipeline = ''[]''\<rparr>"

definition query_demo2 :: query where
  "query_demo2 = \<lparr>query_id = 2, query_user_id = Some 7, query_network_ids = [1, 2],
     seeding = ''[]'', pipeline = ''[]''\<rparr>"

definition db_demo :: database where
  "db_demo = \<lparr>reports = [], networks = [net_alpha, net_beta, net_gamma],
     queries = [query_demo, query_demo2], experiments = [], projects = [], users = [plain_user, other_user]\<rparr>"

definition world_demo :: world where
  "world_demo = \<lparr>session = db_demo, stored = db_demo, commits = 0, insertions = 0,
     session_closed = False, outbox = [], files = [], flashes = []\<rparr>"

definition web_demo :: web_env where
  "web_demo = \<lparr>commit_outcome = (\<lambda>k. None),
     get_network_ids_with_permission_helper = (\<lambda>u db. if user_id u = 7 then {1, 2} else {2}),
     from_query_args = (\<lambda>db i u. \<lparr>query_id = 0, query_user_id = Some (user_id u),
        query_network_ids = [i], seeding = ''[]'', pipeline = ''[]''\<rparr>),
     from_query = (\<lambda>db q u. \<lparr>query_id = 0, query_user_id = Some (user_id u),
        query_network_ids = network_ids q, seeding = seeds q, pipeline = protocol q\<rparr>),
     query_form_to_dict = (\<lambda>form. form),
     from_json = (\<lambda>d. \<lparr>network_ids = [2], seeds = ''[]'', protocol = ''[]''\<rparr>),
     next_query_id = (\<lambda>qs. Suc (length qs)),
     safe_get_query = (\<lambda>u db i. case get_by query_id i (queries db) of
        None \<Rightarrow> Inl (404, ''Missing query'') | Some q \<Rightarrow> Inr q),
     run = (\<lambda>q db. \<lparr>graph_name = None, graph_version = None, document = [],
        statements = map network_name (filter (\<lambda>n. network_id n \<in> set (query_network_ids q)) (networks db))\<rparr>),
     calculate_overlap_dict = (\<lambda>g1 l1 g2 l2. [(l1, length (statements g1)), (l2, length (statements g2))]),
     from_bytes = (\<lambda>b c. Inr \<lparr>graph_name = None, graph_version = None, document = [], statements = []\<rparr>),
     config_PYBEL_DS_CHECK_VERSION = None,
     render_network_summary = (\<lambda>i g. ''summary'')\<rparr>"

definition report_default :: report where
  "report_default = \<lparr>report_id = 1, source_name = ''default.bel'', report_user = plain_user,
     infer_origin = False, message = None, report_time = None, report_network_id = None,
     report_summary = None\<rparr>"

definition report_offline :: report where
  "report_offline = \<lparr>report_id = 2, source_name = ''offline.bel'', report_user = plain_user,
     infer_origin = False, message = None, report_time = None, report_network_id = None,
     report_summary = None\<rparr>"

definition report_copy :: report where
  "report_copy = \<lparr>report_id = 3, source_name = ''copy.bel'', report_user = other_user,
     infer_origin = False, message = None, report_time = None, report_network_id = None,
     report_summary = None\<rparr>"

definition report_new :: report where
  "report_new = \<lparr>report_id = 4, source_name = ''new.bel'', report_user = plain_user,
     infer_origin = True, message = None, report_time = None, report_network_id = None,
     report_summary = None\<rparr>"

definition graph_default :: graph where
  "graph_default = \<lparr>graph_name = Some ''demo'', graph_version = Some ''1.0.0'',
     document = [(''name'', ''demo''), (''description'', ''Document description'')],
     statements = []\<rparr>"

definition graph_copy :: graph where
  "graph_copy = \<lparr>graph_name = Some ''alpha'', graph_version = Some ''1.0.0'',
     document = [(''name'', ''alpha''), (''version'', ''1.0.0'')],
     statements = [''p(HGNC:AKT1) -> p(HGNC:TP53)'']\<rparr>"

definition graph_new :: graph where
  "graph_new = \<lparr>graph_name = Some ''delta'', graph_version = Some ''0.1.0'',
     document = [(''name'', ''delta''), (''version'', ''0.1.0'')],
     statements = [''p(HGNC:APP) -> bp(GO:apoptosis)'']\<rparr>"

definition parser_demo :: parser_env where
  "parser_demo = \<lparr>mail_in_extensions = True, commit_raises = (\<lambda>k. None),
     parse_graph = (\<lambda>r.
        if source_name r = ''offline.bel'' then Inl (Exc ConnectionError ''Max retries exceeded'')
        else if source_name r = ''default.bel'' then Inr graph_default
        else if source_name r = ''copy.bel'' then Inr graph_copy
        else Inr graph_new),
     add_canonical_names = (\<lambda>g. (g, None)),
     add_identifiers = (\<lambda>g. (g, None)),
     infer_central_dogma = (\<lambda>g. (g, None)),
     enrich_pubmed_citations = (\<lambda>g. (g, None)),
     config_PYBEL_USE_EDGE_STORE = None,
     insert_graph = (\<lambda>g store_parts db. Inr \<lparr>network_id = Suc (length (networks db)),
        network_name = str_opt (graph_name g), network_version = str_opt (graph_version g),
        blob = [9], network_report = None, network_users = []\<rparr>),
     make_graph_summary = (\<lambda>g. [(''number_edges'', int (length (statements g)))]),
     fill_out_report = (\<lambda>n r summary. Inr (r\<lparr>report_network_id := Some (network_id n),
        report_summary := Some summary\<rparr>)),
     to_bytes = (\<lambda>obj. case obj of Graph_object g \<Rightarrow> [1, 2, 3] | Network_object n \<Rightarrow> 0 # blob n),
     sha1_hexdigest = (\<lambda>b. join '','' (map str_nat b)),
     str_network = (\<lambda>n. network_name n @ '' v'' @ network_version n),
     str_user = email,
     str_graph = (\<lambda>g. str_opt (graph_name g) @ '' v'' @ str_opt (graph_version g)),
     time_started = 100, time_filled = 103\<rparr>"

definition parser_db :: database where
  "parser_db = db_demo\<lparr>reports := [report_default, report_offline, report_copy, report_new]\<rparr>"

definition parser_world :: world where
  "parser_world = world_demo\<lparr>session := parser_db, stored := parser_db\<rparr>"

definition parser_nomail :: parser_env where
  "parser_nomail = parser_demo\<lparr>mail_in_extensions := False\<rparr>"

definition parser_locked :: parser_env where
  "parser_locked = parser_demo\<lparr>commit_raises :=
     (\<lambda>k. Some (Exc OperationalError ''database is locked''))\<rparr>"

definition parser_trusting :: parser_env where
  "parser_trusting = parser_demo\<lparr>to_bytes :=
     (\<lambda>obj. case obj of Graph_object g \<Rightarrow> [7, 7, 7] | Network_object n \<Rightarrow> blob n)\<rparr>"

definition project_demo :: project where
  "project_demo = \<lparr>project_id = 5, project_name = ''Tau'', project_networks = [net_alpha, net_beta]\<rparr>"

definition experiment_demo :: experiment_row where
  "experiment_demo = \<lparr>experiment_id = 6, experiment_query = query_demo, experiment_source = [8, 8],
     experiment_source_name = ''expression.csv'', gene_column = ''gene'', data_column = ''logFC'',
     permutations = 100, experiment_user = plain_user, result = None, completed = False\<rparr>"

definition task_db :: database where
  "task_db = db_demo\<lparr>experiments := [experiment_demo], projects := [project_demo]\<rparr>"

definition task_world :: world where
  "task_world = world_demo\<lparr>session := task_db, stored := task_db\<rparr>"

definition merge_demo :: merge_env where
  "merge_demo = \<lparr>mail_in_extensions = True, commit_raises = (\<lambda>k. None),
     as_bel = (\<lambda>n. \<lparr>graph_name = Some (network_name n), graph_version = Some (network_version n),
        document = [], statements = [''statements of '' @ network_name n]\<rparr>),
     graph_union = (\<lambda>gs. \<lparr>graph_name = None, graph_version = None, document = [],
        statements = concat (map statements gs)\<rparr>),
     uuid4 = ''16fd2706-8baf-433b-82eb-8c7fada847da'',
     PYBEL_DATA_DIR = ''/home/pybel/.pybel/data'',
     to_bel_lines = statements\<rparr>"

definition merge_nomail :: merge_env where
  "merge_nomail = merge_demo\<lparr>mail_in_extensions := False\<rparr>"

definition cmpa_demo :: cmpa_env where
  "cmpa_demo = \<lparr>mail_in_extensions = True, commit_raises = (\<lambda>k. None),
     run_query = (\<lambda>q db. \<lparr>graph_name = None, graph_version = None, document = [],
        statements = map network_name
          (filter (\<lambda>n. network_id n \<in> set (query_network_ids q)) (networks db))\<rparr>),
     loads = (\<lambda>b. \<lparr>df_columns = [''gene'', ''logFC''],
        df_rows = [(\<lambda>c. if c = ''gene'' then Text ''AKT1'' else Number 2),
                   (\<lambda>c. if c = ''gene'' then Null else Number 1)]\<rparr>),
     calculate_scores = (\<lambda>g d n. case d (Text ''AKT1'') of Some (Number x) \<Rightarrow> [(''alpha'', x)] | _ \<Rightarrow> []),
     dumps = (\<lambda>s. map (\<lambda>(k, v). length k) s)\<rparr>"

definition cmpa_failing :: cmpa_env where
  "cmpa_failing = cmpa_demo\<lparr>commit_raises := (\<lambda>k. Some (Exc OperationalError ''database is locked''))\<rparr>"

section \<open>Theorems: administrative model views\<close>

text \<open>
  C3, as stated, fails: the project view registered by
  \<^verbatim>\<open>FlaskPyBEL._build_admin_service\<close> exposes the \<^verbatim>\<open>Project\<close> table and shows it to a
  logged-in user who is not an admin; its predicate is \<^verbatim>\<open>current_user.is_authenticated\<close>
  alone.
\<close>

theorem project_view_open_to_non_admin:
  "(ProjectView, Project) \<in> set build_admin_service_views
   \<and> \<not> is_admin plain_user
   \<and> handle_view ProjectView plain_user ''/admin/project/'' ''table'' = Page ''table''"
  by (simp add: build_admin_service_views_def plain_user_def handle_view_def)

text \<open>
  C3, amended: every view registered by \<^verbatim>\<open>_build_admin_service\<close> other than the project
  view answers with the table exactly when the current user is authenticated and is an
  admin, and the project view exactly when the current user is authenticated; every other
  requester gets the redirect to the login page. The same holds, with the attribute
  \<^verbatim>\<open>admin\<close>, for the views of \<^verbatim>\<open>admin_service.py\<close> that derive from its
  \<^verbatim>\<open>ModelView\<close>.
\<close>

theorem admin_views_guarded:
  "((v, m) \<in> set build_admin_service_views \<longrightarrow>
      handle_view v cu request_url page =
        (if is_authenticated cu \<and> (v = ProjectView \<or> is_admin cu) then Page page
         else Redirect (Url_for_security ''login'' [(''next'', request_url)])))
   \<and> ((sv, m') \<in> set admin_service_views \<and> sv \<noteq> ServiceProjectView \<longrightarrow>
      service_handle_view sv cu request_url page =
        (if is_authenticated cu \<and> admin cu then Page page
         else Redirect (Url_for ''login'' [(''next'', request_url)])))"
  by (cases v; cases sv)
     (simp_all add: handle_view_def inaccessible_callback_def
        service_handle_view_def service_inaccessible_callback_def)

theorem admin_views_guarded_witness:
  "(NetworkView, Network) \<in> set build_admin_service_views
   \<and> handle_view NetworkView plain_user ''/admin/network/'' ''table''
       = Redirect (Url_for_security ''login'' [(''next'', ''/admin/network/'')])
   \<and> (ServiceUserView, User) \<in> set admin_service_views
   \<and> service_handle_view ServiceUserView plain_user ''/admin/user/'' ''table''
       = Redirect (Url_for ''login'' [(''next'', ''/admin/user/'')])"
  using admin_views_guarded [of NetworkView Network plain_user "''/admin/network/''" "''table''"
      ServiceUserView User]
    admin_views_guarded [of NetworkView Network plain_user "''/admin/user/''" "''table''"
      ServiceUserView User]
  by (simp add: build_admin_service_views_def admin_service_views_def plain_user_def)

text \<open>
  The \<^verbatim>\<open>ProjectView\<close> of \<^verbatim>\<open>admin_service.py\<close>, which the amended claim leaves out, has no
  predicate of its own: it answers every requester with the table.
\<close>

lemma service_project_view_unguarded:
  "service_handle_view ServiceProjectView cu request_url page = Page page"
  by (simp add: service_handle_view_def)

section \<open>Theorems: the network loader\<close>

lemma fold_insert_ids:
  "fold (\<lambda>network acc'. insert (network_id network) acc') ns acc = acc \<union> network_id ` set ns"
  by (induction ns arbitrary: acc) auto

lemma fold_users_ids:
  "fold (\<lambda>u acc. fold (\<lambda>network acc'. insert (network_id network) acc') (f u) acc) us acc
     = acc \<union> (\<Union>u\<in>set us. network_id ` set (f u))"
  by (induction us arbitrary: acc) (auto simp: fold_insert_ids)

lemma allowed_network_ids_eq:
  "allowed_network_ids env cu =
     network_id ` (set (get_owned_networks env cu) \<union> set (get_shared_networks env cu)
        \<union> set (iter_public_networks (list_recent_networks env)))
     \<union> (if is_scai cu then (\<Union>u\<in>set (scai_role_users env). network_id ` set (get_owned_networks env u)) else {})"
  by (auto simp: allowed_network_ids_def Let_def fold_users_ids)

lemma set_query_all:
  "set (query_all table q) \<subseteq> {n \<in> set table. list_all (\<lambda>p. p n) (query_filters q)}"
proof -
  have "set (query_all table q) \<subseteq> set (filter (\<lambda>n. list_all (\<lambda>p. p n) (query_filters q)) table)"
    using set_take_subset set_drop_subset
    by (fastforce simp: query_all_def Let_def split: option.splits)
  then show ?thesis by auto
qed

text \<open>
  C8: for a user who is not an admin, every network that \<^verbatim>\<open>get_list\<close> returns is a row
  of the \<^verbatim>\<open>Network\<close> table whose id is the id of a network the user owns, of a network
  shared with the user, of a public network among \<^verbatim>\<open>list_recent_networks()\<close>, or, when
  the user has the role \<^verbatim>\<open>scai\<close>, of a network owned by a user of that role; and when
  the set of allowed ids is empty, \<^verbatim>\<open>get_list\<close> returns \<^verbatim>\<open>[]\<close> without executing a
  query.
\<close>

theorem get_list_allowed:
  assumes "\<not> is_admin cu"
  shows "(\<forall>n \<in> set (get_list env cu term offset limit).
            n \<in> set (network_table env) \<and>
            (\<exists>m. network_id m = network_id n \<and>
               (m \<in> set (get_owned_networks env cu)
                \<or> m \<in> set (get_shared_networks env cu)
                \<or> (m \<in> set (list_recent_networks env) \<and> (\<exists>r. network_report m = Some r \<and> public r))
                \<or> (is_scai cu \<and> (\<exists>u \<in> set (scai_role_users env). m \<in> set (get_owned_networks env u))))))
         \<and> (allowed_network_ids env cu = {} \<longrightarrow>
               get_list_query env cu term offset limit = None
               \<and> get_list env cu term offset limit = [])"
proof (intro conjI ballI impI)
  fix n assume n: "n \<in> set (get_list env cu term offset limit)"
  then obtain q where q: "get_list_query env cu term offset limit = Some q"
    and nq: "n \<in> set (query_all (network_table env) q)"
    by (cases "get_list_query env cu term offset limit") (auto simp: get_list_def)
  from nq set_query_all have nt: "n \<in> set (network_table env)" and fs: "list_all (\<lambda>p. p n) (query_filters q)"
    by blast+
  show "n \<in> set (network_table env)" by (rule nt)
  from q assms fs have "network_id n \<in> allowed_network_ids env cu"
    by (auto simp: get_list_query_def Let_def split: if_splits)
  then show "\<exists>m. network_id m = network_id n \<and>
               (m \<in> set (get_owned_networks env cu)
                \<or> m \<in> set (get_shared_networks env cu)
                \<or> (m \<in> set (list_recent_networks env) \<and> (\<exists>r. network_report m = Some r \<and> public r))
                \<or> (is_scai cu \<and> (\<exists>u \<in> set (scai_role_users env). m \<in> set (get_owned_networks env u))))"
    unfolding allowed_network_ids_eq
    by (auto simp: iter_public_networks_def split: if_splits option.splits)
next
  assume "allowed_network_ids env cu = {}"
  with assms show "get_list_query env cu term offset limit = None"
    by (simp add: get_list_query_def Let_def)
  then show "get_list env cu term offset limit = []"
    by (simp add: get_list_def)
qed

theorem get_list_allowed_witness:
  "\<not> is_admin plain_user
   \<and> get_list loader_demo plain_user [] 0 10 = [net_alpha, net_beta]
   \<and> net_alpha \<in> set (get_owned_networks loader_demo plain_user)
   \<and> net_beta \<in> set (list_recent_networks loader_demo)
   \<and> network_report net_beta = Some \<lparr>report_owner = other_user, public = True\<rparr>
   \<and> allowed_network_ids loader_bare plain_user = {}
   \<and> get_list_query loader_bare plain_user [] 0 10 = None
   \<and> get_list loader_bare plain_user [] 0 10 = []"
  using get_list_allowed [of plain_user loader_demo "[]" 0 10]
    get_list_allowed [of plain_user loader_bare "[]" 0 10]
  by (simp add: get_list_def get_list_query_def allowed_network_ids_def loader_demo_def
      loader_bare_def plain_user_def iter_public_networks_def net_alpha_def net_beta_def
      net_gamma_def query_all_def Let_def)

section \<open>Theorems: route handlers\<close>

text \<open>
  C10: when the network id is not among the ids the current user has permission for,
  \<^verbatim>\<open>view_explore_network\<close> and \<^verbatim>\<open>view_summary\<close> answer with the 403 error and leave
  the session, the stored rows and everything else as they were; in particular
  \<^verbatim>\<open>view_explore_network\<close> adds no \<^verbatim>\<open>Query\<close> row.
\<close>

theorem forbidden_network_untouched:
  assumes "i \<notin> get_network_ids_with_permission_helper env cu (session w)"
  shows "view_explore_network env cu i w
           = (Returned (Abort 403 (''Insufficient rights for network '' @ str_nat i)), w)
       \<and> view_summary env cu i w
           = (Returned (Abort 403 (''Insufficient rights for network '' @ str_nat i)), w)
       \<and> queries (session (snd (view_explore_network env cu i w))) = queries (session w)
       \<and> queries (stored (snd (view_explore_network env cu i w))) = queries (stored w)"
  using assms by (simp add: view_explore_network_def view_summary_def)

theorem forbidden_network_untouched_witness:
  "3 \<notin> get_network_ids_with_permission_helper web_demo plain_user (session world_demo)
   \<and> view_explore_network web_demo plain_user 3 world_demo
        = (Returned (Abort 403 ''Insufficient rights for network 3''), world_demo)
   \<and> view_summary web_demo plain_user 3 world_demo
        = (Returned (Abort 403 ''Insufficient rights for network 3''), world_demo)"
  using forbidden_network_untouched [of 3 web_demo plain_user world_demo]
  by (simp add: web_demo_def plain_user_def str_nat.simps digit_def)




text \<open>
  The same two stored queries, compared after network 2 has been removed from the database,
  give another overlap: the page follows the networks, not a stored result.
\<close>

lemma comparison_follows_database:
  "fst (view_query_comparison web_demo plain_user 1 2
          (world_demo\<lparr>session := db_demo\<lparr>networks := [net_alpha, net_gamma]\<rparr>\<rparr>))
     = Returned (Page (Render_template ''query_comparison.html''
           [(''query_1_id'', Int_value 1), (''query_2_id'', Int_value 2),
            (''data'', Overlap_value [(''Query 1'', 1), (''Query 2'', 1)])]))"
  by (simp add: view_query_comparison_def web_demo_def world_demo_def db_demo_def query_demo_def
      query_demo2_def get_by_def str_nat.simps digit_def net_alpha_def net_beta_def net_gamma_def)

section \<open>Theorems: \<^verbatim>\<open>async_parser\<close>\<close>

subsection \<open>Rows, mail and the session\<close>

lemma get_by_SomeD: "get_by key i rows = Some r \<Longrightarrow> key r = i \<and> r \<in> set rows"
  by (induction rows) (auto simp: get_by_def split: if_splits)

lemma get_by_update_by:
  assumes "\<And>r. key (f r) = key r"
  shows "get_by key i (update_by key i f rows) = map_option f (get_by key i rows)"
  using assms by (induction rows) (auto simp: get_by_def update_by_def)

lemma update_by_mem:
  "get_by key i rows = Some r \<Longrightarrow> f r \<in> set (update_by key i f rows)"
  by (induction rows) (auto simp: get_by_def update_by_def split: if_splits)

lemma finish_parsing_Returned:
  assumes "finish_parsing env report s b l w = (Returned v, w')"
  shows "v = Py_str b \<and> commit_raises env (commits w) = None
       \<and> w' = (set_message (report_id report) b (make_mail env report s b w))
                \<lparr>stored := session (set_message (report_id report) b (make_mail env report s b w)),
                 commits := Suc (commits w)\<rparr>"
  using assms
  by (auto simp: finish_parsing_def worker_commit_def session_commit_def Let_def set_message_def
        make_mail_def send_message_def split: option.splits if_splits)

lemma finish_parsing_ok:
  assumes "commit_raises env (commits w) = None"
  shows "finish_parsing env report s b l w =
      (Returned (Py_str b),
       (set_message (report_id report) b (make_mail env report s b w))
                \<lparr>stored := session (set_message (report_id report) b (make_mail env report s b w)),
                 commits := Suc (commits w)\<rparr>)"
  using assms
  by (auto simp: finish_parsing_def worker_commit_def session_commit_def Let_def set_message_def
        make_mail_def send_message_def split: option.splits if_splits)

lemma finish_parsing_raises:
  assumes "commit_raises env (commits w) = Some e"
  shows "finish_parsing env report s b l w =
      (Raised e,
       (set_message (report_id report) b (make_mail env report s b w))\<lparr>commits := Suc (commits w)\<rparr>)"
  using assms
  by (simp add: finish_parsing_def worker_commit_def session_commit_def Let_def set_message_def
        make_mail_def send_message_def)

lemma make_mail_simps [simp]:
  "session (make_mail env report s b w) = session w"
  "stored (make_mail env report s b w) = stored w"
  "commits (make_mail env report s b w) = commits w"
  "insertions (make_mail env report s b w) = insertions w"
  "session_closed (make_mail env report s b w) = session_closed w"
  "outbox (make_mail env report s b w) =
     outbox w @ (if mail_in_extensions env
                 then [\<lparr>subject = s, recipients = [email (report_user report)], body = b,
                        sender = pbw_sender, attachments = []\<rparr>] else [])"
  by (simp_all add: make_mail_def send_message_def)

lemma set_message_simps [simp]:
  "session (set_message i b w) = (session w)\<lparr>reports :=
         update_by report_id i (\<lambda>r. r\<lparr>message := Some b\<rparr>) (reports (session w))\<rparr>"
  "stored (set_message i b w) = stored w"
  "commits (set_message i b w) = commits w"
  "insertions (set_message i b w) = insertions w"
  "outbox (set_message i b w) = outbox w"
  "session_closed (set_message i b w) = session_closed w"
  by (simp_all add: set_message_def)

lemma default_value_iff:
  "(case map_of dumb_belief_stuff k of None \<Rightarrow> False | Some vs \<Rightarrow> v \<in> set vs) \<longleftrightarrow>
     (k, v) = (METADATA_DESCRIPTION, ''Document description'')
     \<or> (k, v) = (METADATA_CONTACT, ''your@email.com'')
     \<or> (k, v) = (METADATA_LICENSES, ''Document license'')"
  by (simp add: dumb_belief_stuff_def METADATA_DESCRIPTION_def METADATA_CONTACT_def
        METADATA_LICENSES_def)

lemma problem_nonempty:
  "problem graph \<noteq> [] \<longleftrightarrow>
     (METADATA_DESCRIPTION, ''Document description'') \<in> set (document graph)
     \<or> (METADATA_CONTACT, ''your@email.com'') \<in> set (document graph)
     \<or> (METADATA_LICENSES, ''Document license'') \<in> set (document graph)"
proof -
  have "problem graph \<noteq> [] \<longleftrightarrow>
     (\<exists>kv \<in> set (document graph). 
        kv = (METADATA_DESCRIPTION, ''Document description'')
        \<or> kv = (METADATA_CONTACT, ''your@email.com'')
        \<or> kv = (METADATA_LICENSES, ''Document license''))"
    unfolding problem_def filter_empty_conv
    by (simp only: default_value_iff split_beta prod.collapse not_all not_not bex_simps Bex_def)
       auto
  then show ?thesis by auto
qed

lemma send_message_simps [simp]:
  "session (send_message s r b w) = session w"
  "stored (send_message s r b w) = stored w"
  "commits (send_message s r b w) = commits w"
  "insertions (send_message s r b w) = insertions w"
  "session_closed (send_message s r b w) = session_closed w"
  by (simp_all add: send_message_def)

lemma finish_parsing_recorded:
  assumes "finish_parsing env report s b l w1 = (Returned v, w')"
    and "get_by report_id (report_id report) (reports (session w1)) = Some report"
  shows "outcome_recorded env report w v w'"
  using finish_parsing_Returned [OF assms(1)] assms(2)
  by (simp add: outcome_recorded_def get_by_update_by)

lemma existing_network_recorded:
  assumes found: "get_by report_id (report_id report) (reports (session w)) = Some report"
    and ret: "existing_network env report graph network w = (Returned v, w')"
  shows "outcome_recorded env report w v w'"
proof (cases "network_report network")
  case None
  with ret show ?thesis by (simp add: existing_network_def)
next
  case (Some nr)
  show ?thesis
  proof (cases "report_owner nr = report_user report")
    case True
    with ret Some found show ?thesis
      by (auto simp: existing_network_def Let_def intro: finish_parsing_recorded)
  next
    case False
    note other = this
    show ?thesis
    proof (cases "sha1_hexdigest env (blob network)
                     \<noteq> sha1_hexdigest env (to_bytes env (Network_object network))")
      case True
      with ret Some other found show ?thesis
        by (auto simp: existing_network_def Let_def split: if_splits
            intro: finish_parsing_recorded)
    next
      case False
      with ret Some other found show ?thesis
        by (auto simp: existing_network_def Let_def worker_commit_def session_commit_def
            split: if_splits option.splits prod.splits
            intro: finish_parsing_recorded)
    qed
  qed
qed

lemma session_rollback_simps [simp]:
  "session (session_rollback w) = stored w"
  "stored (session_rollback w) = stored w"
  "commits (session_rollback w) = commits w"
  "insertions (session_rollback w) = insertions w"
  "outbox (session_rollback w) = outbox w"
  "session_closed (session_rollback w) = session_closed w"
  by (simp_all add: session_rollback_def)

lemma session_close_simps [simp]:
  "session (session_close w) = session w"
  "stored (session_close w) = stored w"
  "commits (session_close w) = commits w"
  "insertions (session_close w) = insertions w"
  "outbox (session_close w) = outbox w"
  "session_closed (session_close w) = True"
  by (simp_all add: session_close_def)

lemma report_unsuccessful_recorded:
  assumes "report_unsuccessful env report e w3 = (Returned v, w')"
    and "reports (stored w3) = reports (stored w)"
  shows "outcome_recorded env report w v w'"
  using assms by (auto simp: report_unsuccessful_def outcome_recorded_def Let_def)

lemma complete_report_recorded:
  assumes ret: "complete_report env report graph network w3 = (Returned v, w')"
    and found: "get_by report_id (report_id report) (reports (session w3)) = Some report"
    and reps: "reports (stored w3) = reports (stored w)"
    and net: "network \<in> set (networks (session w3))"
    and ins: "insertions w3 = Suc (insertions w)"
  shows "outcome_recorded env report w v w'"
proof (cases "fill_out_report env network report (make_graph_summary env graph)")
  case (Inl e)
  with ret reps show ?thesis
    by (auto simp: complete_report_def Let_def intro: report_unsuccessful_recorded)
next
  case (Inr filled)
  show ?thesis
  proof (cases "commit_raises env (commits w3)")
    case (Some e)
    with ret Inr reps show ?thesis
      by (auto simp: complete_report_def Let_def worker_commit_def session_commit_def
          intro: report_unsuccessful_recorded)
  next
    case None
    have mem: "filled\<lparr>report_time := Some (time_filled env - time_started env)\<rparr>
          \<in> set (update_by report_id (report_id report)
                 (\<lambda>r. filled\<lparr>report_time := Some (time_filled env - time_started env)\<rparr>)
                 (reports (session w3)))"
      using update_by_mem [OF found] by fast
    from ret Inr None have v: "v = Py_int (int (network_id network))"
      and closed: "session_closed w'"
      and st: "stored w' = (session w3)\<lparr>reports := update_by report_id (report_id report)
                 (\<lambda>r. filled\<lparr>report_time := Some (time_filled env - time_started env)\<rparr>)
                 (reports (session w3))\<rparr>"
      and i: "insertions w' = insertions w3"
      by (auto simp: complete_report_def Let_def worker_commit_def session_commit_def)
    have "fill_out_report env network report (make_graph_summary env graph) = Inr filled
        \<and> int (network_id network) = int (network_id network)
        \<and> network \<in> set (networks (stored w'))
        \<and> filled\<lparr>report_time := Some (time_filled env - time_started env)\<rparr>
            \<in> set (reports (stored w'))
        \<and> insertions w' = Suc (insertions w)"
      using Inr mem net ins st i by simp
    then have "\<exists>graph network' filled.
          fill_out_report env network' report (make_graph_summary env graph) = Inr filled
        \<and> int (network_id network) = int (network_id network')
        \<and> network' \<in> set (networks (stored w'))
        \<and> filled\<lparr>report_time := Some (time_filled env - time_started env)\<rparr>
            \<in> set (reports (stored w'))
        \<and> insertions w' = Suc (insertions w)"
      by blast
    then show ?thesis
      using v closed by (simp add: outcome_recorded_def)
  qed
qed

lemma upload_graph_recorded:
  assumes ret: "upload_graph env report graph w = (Returned v, w')"
    and found: "get_by report_id (report_id report) (reports (session w)) = Some report"
    and clean: "stored w = session w"
  shows "outcome_recorded env report w v w'"
proof -
  obtain graph' enrich_error where en: "enrich env report graph = (graph', enrich_error)"
    by (cases "enrich env report graph") auto
  define w1 where "w1 = (case enrich_error of
                  Some e \<Rightarrow> if is_database_error e then session_rollback w else w
                | None \<Rightarrow> w)"
  have w1: "session w1 = session w" "stored w1 = session w" "insertions w1 = insertions w"
    using clean by (auto simp: w1_def split: option.splits)
  define store_parts where
    "store_parts = (case config_PYBEL_USE_EDGE_STORE env of None \<Rightarrow> True | Some b \<Rightarrow> b)"
  show ?thesis
  proof (cases "insert_graph env graph' store_parts (session w1)")
    case (Inl e)
    with ret en show ?thesis
      using found w1
      by (auto simp: upload_graph_def Let_def w1_def [symmetric] store_parts_def [symmetric]
          intro: finish_parsing_recorded)
  next
    case (Inr network)
    with ret en show ?thesis
      using found w1 clean
      by (auto simp: upload_graph_def Let_def w1_def [symmetric] store_parts_def [symmetric]
          intro!: complete_report_recorded)
  qed
qed

lemma check_and_store_recorded:
  assumes ret: "check_and_store env report graph w = (Returned v, w')"
    and found: "get_by report_id (report_id report) (reports (session w)) = Some report"
    and clean: "stored w = session w"
  shows "outcome_recorded env report w v w'"
  using ret found
  by (auto simp: check_and_store_def split: if_splits sum.splits option.splits
      intro: finish_parsing_recorded existing_network_recorded upload_graph_recorded [OF _ _ clean])

lemmas demo_defs = parser_world_def parser_db_def world_demo_def db_demo_def parser_demo_def
  report_default_def report_offline_def report_copy_def report_new_def
  graph_default_def graph_copy_def graph_new_def net_alpha_def net_beta_def net_gamma_def
  plain_user_def other_user_def query_demo_def query_demo2_def

lemmas parser_defs = async_parser_def check_and_store_def upload_graph_def complete_report_def
  report_unsuccessful_def enrich_def existing_network_def finish_parsing_def make_mail_def
  send_message_def set_message_def worker_commit_def session_commit_def session_rollback_def
  session_close_def get_by_def update_by_def one_or_none_def problem_def dumb_belief_stuff_def
  METADATA_DESCRIPTION_def METADATA_CONTACT_def METADATA_LICENSES_def falsy_def str_opt_def
  is_database_error_def Let_def

subsection \<open>Exceptions of the parser\<close>

text \<open>
  C2, as stated, fails twice. Without the mail extension
  (\<^verbatim>\<open>'mail' not in app.extensions\<close>) \<^verbatim>\<open>make_mail\<close> returns at once, so a connection error
  of the parser is stored in the report and returned, and no mail is sent to anybody. And
  when the commit of \<^verbatim>\<open>finish_parsing\<close> raises, nothing catches it: the task raises that
  exception instead of returning the message, and the stored report is as it was.
\<close>

theorem parse_error_without_mail:
  "parse_graph parser_nomail report_offline = Inl (Exc ConnectionError ''Max retries exceeded'')
   \<and> get_by report_id 2 (reports (session parser_world)) = Some report_offline
   \<and> fst (async_parser parser_nomail 2 parser_world)
        = Returned (Py_str ''Connection to resource could not be established.'')
   \<and> outbox (snd (async_parser parser_nomail 2 parser_world)) = []
   \<and> parse_graph parser_locked report_offline = Inl (Exc ConnectionError ''Max retries exceeded'')
   \<and> fst (async_parser parser_locked 2 parser_world)
        = Raised (Exc OperationalError ''database is locked'')
   \<and> stored (snd (async_parser parser_locked 2 parser_world)) = stored parser_world"
  by (simp add: parser_nomail_def parser_locked_def demo_defs parser_defs)

text \<open>
  C2, amended: whatever exception \<^verbatim>\<open>report.parse_graph\<close> raises, \<^verbatim>\<open>async_parser\<close> maps
  it to a message, sends that message to the report's user by mail exactly when the mail
  extension is configured, and sets it in the report's \<^verbatim>\<open>message\<close> field; when the commit
  that follows succeeds the message is committed and the task returns it instead of raising,
  and when that commit raises, its exception is what the task raises and the stored rows
  are as they were.
\<close>

theorem parse_error_reported:
  assumes found: "get_by report_id rid (reports (session w)) = Some report"
    and raised: "parse_graph env report = Inl e"
  shows "outbox (snd (async_parser env rid w))
            = outbox w @ (if mail_in_extensions env
                 then [\<lparr>subject = ''Parsing Failed for '' @ source_name report,
                         recipients = [email (report_user report)],
                         body = parse_failure_message report e,
                         sender = pbw_sender, attachments = []\<rparr>]
                 else [])
       \<and> get_by report_id rid (reports (session (snd (async_parser env rid w))))
            = Some (report\<lparr>message := Some (parse_failure_message report e)\<rparr>)
       \<and> (case commit_raises env (commits w) of
             None \<Rightarrow>
               fst (async_parser env rid w) = Returned (Py_str (parse_failure_message report e))
               \<and> get_by report_id rid (reports (stored (snd (async_parser env rid w))))
                    = Some (report\<lparr>message := Some (parse_failure_message report e)\<rparr>)
           | Some e' \<Rightarrow>
               fst (async_parser env rid w) = Raised e'
               \<and> stored (snd (async_parser env rid w)) = stored w)"
proof -
  have rid: "report_id report = rid"
    using found get_by_SomeD by fastforce
  have run: "async_parser env rid w
      = finish_parsing env report (''Parsing Failed for '' @ source_name report)
          (parse_failure_message report e) True w"
    using found raised
    by (cases "kind e") (simp_all add: async_parser_def parse_failure_message_def)
  show ?thesis
  proof (cases "commit_raises env (commits w)")
    case None
    then show ?thesis
      by (simp add: run finish_parsing_ok rid get_by_update_by found)
  next
    case (Some e')
    then show ?thesis
      by (simp add: run finish_parsing_raises rid get_by_update_by found)
  qed
qed

theorem parse_error_reported_witness:
  "get_by report_id 2 (reports (session parser_world)) = Some report_offline
   \<and> parse_graph parser_demo report_offline = Inl (Exc ConnectionError ''Max retries exceeded'')
   \<and> fst (async_parser parser_demo 2 parser_world)
        = Returned (Py_str ''Connection to resource could not be established.'')
   \<and> get_by report_id 2 (reports (stored (snd (async_parser parser_demo 2 parser_world))))
        = Some (report_offline\<lparr>message := Some ''Connection to resource could not be established.''\<rparr>)
   \<and> outbox (snd (async_parser parser_demo 2 parser_world))
        = [\<lparr>subject = ''Parsing Failed for offline.bel'', recipients = [''reader@example.org''],
            body = ''Connection to resource could not be established.'',
            sender = pbw_sender, attachments = []\<rparr>]
   \<and> parse_graph parser_locked report_offline = Inl (Exc ConnectionError ''Max retries exceeded'')
   \<and> fst (async_parser parser_locked 2 parser_world)
        = Raised (Exc OperationalError ''database is locked'')
   \<and> stored (snd (async_parser parser_locked 2 parser_world)) = stored parser_world
   \<and> map subject (outbox (snd (async_parser parser_locked 2 parser_world)))
        = [''Parsing Failed for offline.bel'']"
proof -
  have found: "get_by report_id 2 (reports (session parser_world)) = Some report_offline"
    by (simp add: demo_defs get_by_def)
  have raised: "parse_graph parser_demo report_offline = Inl (Exc ConnectionError ''Max retries exceeded'')"
    by (simp add: parser_demo_def report_offline_def)
  have raised': "parse_graph parser_locked report_offline = Inl (Exc ConnectionError ''Max retries exceeded'')"
    by (simp add: parser_locked_def parser_demo_def report_offline_def)
  show ?thesis
    using parse_error_reported [OF found raised] parse_error_reported [OF found raised']
      found raised raised'
    by (simp add: parse_failure_message_def report_offline_def plain_user_def parser_world_def
        world_demo_def parser_demo_def parser_locked_def)
qed

subsection \<open>Rejected graphs\<close>

text \<open>
  C9, as stated, fails: when the commit of \<^verbatim>\<open>finish_parsing\<close> raises, nothing catches it.
  For a graph with the default description the task then raises the exception of the commit
  instead of returning the reason, and the stored report is as it was.
\<close>

theorem rejected_graph_commit_raises:
  "get_by report_id 1 (reports (session parser_world)) = Some report_default
   \<and> parse_graph parser_locked report_default = Inr graph_default
   \<and> (METADATA_DESCRIPTION, ''Document description'') \<in> set (document graph_default)
   \<and> fst (async_parser parser_locked 1 parser_world)
        = Raised (Exc OperationalError ''database is locked'')
   \<and> stored (snd (async_parser parser_locked 1 parser_world)) = stored parser_world
   \<and> get_by report_id 1 (reports (stored parser_world)) = Some report_default
   \<and> message report_default = None"
  by (simp add: parser_locked_def demo_defs parser_defs repr_dict_def quoted_def)

text \<open>
  C9, amended: a graph that parsed but has no name, no version, or one of the default values
  \<^verbatim>\<open>'Document description'\<close> for the description, \<^verbatim>\<open>'your@email.com'\<close> for the contact,
  \<^verbatim>\<open>'Document license'\<close> for the licenses, is rejected before any insertion:
  \<^verbatim>\<open>manager.insert_graph\<close> is not called, the networks are as they were, and the report's
  \<^verbatim>\<open>message\<close> is set to the reason; when the commit that follows succeeds the reason is
  committed and the task returns it, and when that commit raises, its exception is what the
  task raises and the stored rows are as they were.
\<close>

theorem default_metadata_rejected:
  assumes found: "get_by report_id rid (reports (session w)) = Some report"
    and parsed: "parse_graph env report = Inr graph"
    and bad: "falsy (graph_name graph) \<or> falsy (graph_version graph)
       \<or> (METADATA_DESCRIPTION, ''Document description'') \<in> set (document graph)
       \<or> (METADATA_CONTACT, ''your@email.com'') \<in> set (document graph)
       \<or> (METADATA_LICENSES, ''Document license'') \<in> set (document graph)"
  shows "insertions (snd (async_parser env rid w)) = insertions w
       \<and> networks (session (snd (async_parser env rid w))) = networks (session w)
       \<and> get_by report_id rid (reports (session (snd (async_parser env rid w))))
            = Some (report\<lparr>message := Some (rejection_reason report graph)\<rparr>)
       \<and> (case commit_raises env (commits w) of
             None \<Rightarrow>
               fst (async_parser env rid w) = Returned (Py_str (rejection_reason report graph))
               \<and> get_by report_id rid (reports (stored (snd (async_parser env rid w))))
                    = Some (report\<lparr>message := Some (rejection_reason report graph)\<rparr>)
               \<and> networks (stored (snd (async_parser env rid w))) = networks (session w)
           | Some e' \<Rightarrow>
               fst (async_parser env rid w) = Raised e'
               \<and> stored (snd (async_parser env rid w)) = stored w)"
proof -
  have rid: "report_id report = rid"
    using found get_by_SomeD by fastforce
  have bad': "falsy (graph_name graph) \<or> falsy (graph_version graph) \<or> problem graph \<noteq> []"
    using bad by (simp add: problem_nonempty)
  have "async_parser env rid w = check_and_store env report graph w"
    by (simp add: async_parser_def found parsed)
  moreover have "\<exists>s. check_and_store env report graph w
           = finish_parsing env report s (rejection_reason report graph) True w"
    using bad' by (auto simp: check_and_store_def rejection_reason_def)
  ultimately obtain s where run: "async_parser env rid w
       = finish_parsing env report s (rejection_reason report graph) True w"
    by auto
  show ?thesis
  proof (cases "commit_raises env (commits w)")
    case None
    then show ?thesis
      by (simp add: run finish_parsing_ok rid get_by_update_by found)
  next
    case (Some e')
    then show ?thesis
      by (simp add: run finish_parsing_raises rid get_by_update_by found)
  qed
qed

theorem default_metadata_rejected_witness:
  "get_by report_id 1 (reports (session parser_world)) = Some report_default
   \<and> parse_graph parser_demo report_default = Inr graph_default
   \<and> (METADATA_DESCRIPTION, ''Document description'') \<in> set (document graph_default)
   \<and> rejection_reason report_default graph_default
        = ''default.bel was rejected because it has '' @ [CHR 0x22] @ ''default'' @ [CHR 0x22]
          @ '' metadata: {'' @ quoted ''description'' @ '': '' @ quoted ''Document description'' @ ''}''
   \<and> fst (async_parser parser_demo 1 parser_world)
        = Returned (Py_str (rejection_reason report_default graph_default))
   \<and> insertions (snd (async_parser parser_demo 1 parser_world)) = insertions parser_world
   \<and> get_by report_id 1 (reports (stored (snd (async_parser parser_demo 1 parser_world))))
        = Some (report_default\<lparr>message := Some (rejection_reason report_default graph_default)\<rparr>)
   \<and> parse_graph parser_locked report_default = Inr graph_default
   \<and> fst (async_parser parser_locked 1 parser_world)
        = Raised (Exc OperationalError ''database is locked'')
   \<and> insertions (snd (async_parser parser_locked 1 parser_world)) = insertions parser_world
   \<and> stored (snd (async_parser parser_locked 1 parser_world)) = stored parser_world"
proof -
  have found: "get_by report_id 1 (reports (session parser_world)) = Some report_default"
    by (simp add: demo_defs get_by_def)
  have parsed: "parse_graph parser_demo report_default = Inr graph_default"
    by (simp add: parser_demo_def report_default_def)
  have parsed': "parse_graph parser_locked report_default = Inr graph_default"
    by (simp add: parser_locked_def parser_demo_def report_default_def)
  have bad: "(METADATA_DESCRIPTION, ''Document description'') \<in> set (document graph_default)"
    by (simp add: graph_default_def METADATA_DESCRIPTION_def)
  have reason: "rejection_reason report_default graph_default
        = ''default.bel was rejected because it has '' @ [CHR 0x22] @ ''default'' @ [CHR 0x22]
          @ '' metadata: {'' @ quoted ''description'' @ '': '' @ quoted ''Document description'' @ ''}''"
    by (simp add: rejection_reason_def report_default_def graph_default_def falsy_def problem_def
        dumb_belief_stuff_def METADATA_DESCRIPTION_def METADATA_CONTACT_def METADATA_LICENSES_def
        repr_dict_def quoted_def)
  have ok: "commit_raises parser_demo (commits parser_world) = None"
    by (simp add: parser_demo_def)
  have locked: "commit_raises parser_locked (commits parser_world)
      = Some (Exc OperationalError ''database is locked'')"
    by (simp add: parser_locked_def)
  show ?thesis
    using default_metadata_rejected [OF found parsed] default_metadata_rejected [OF found parsed']
      found parsed parsed' bad reason
    by (simp add: ok locked)
qed

subsection \<open>A graph whose name and version are stored already\<close>

text \<open>
  C1 does not hold of the code: the comparison at line 220 is between the hash of
  \<^verbatim>\<open>network.blob\<close> and the hash of \<^verbatim>\<open>to_bytes(network)\<close>, the stored row itself, and
  never reads the uploaded graph. Here another user uploads a graph whose bytes equal the
  stored blob, so that the two hashes C1 speaks of agree; the task refuses the upload with
  the integrity message, reports an attempted espionage, and grants no rights.
\<close>

theorem identical_upload_refused:
  "get_by report_id 3 (reports (session parser_world)) = Some report_copy
   \<and> parse_graph parser_demo report_copy = Inr graph_copy
   \<and> to_bytes parser_demo (Graph_object graph_copy) = blob net_alpha
   \<and> sha1_hexdigest parser_demo (to_bytes parser_demo (Graph_object graph_copy))
        = sha1_hexdigest parser_demo (blob net_alpha)
   \<and> report_user report_copy \<noteq> plain_user
   \<and> fst (async_parser parser_demo 3 parser_world)
        = Returned (Py_str (integrity_message ''alpha'' ''1.0.0''))
   \<and> networks (stored (snd (async_parser parser_demo 3 parser_world)))
        = [net_alpha, net_beta, net_gamma]
   \<and> map subject (outbox (snd (async_parser parser_demo 3 parser_world)))
        = [''Possible attempted Espionage'', ''Upload Failed for copy.bel'']"
  by (simp add: demo_defs parser_defs str_nat.simps digit_def get_by_def)

text \<open>
  The other way round: where \<^verbatim>\<open>to_bytes(network)\<close> equals the stored blob, an upload of
  different bytes under the same name and version is granted rights.
\<close>

lemma different_upload_granted:
  "sha1_hexdigest parser_trusting (to_bytes parser_trusting (Graph_object graph_copy))
        \<noteq> sha1_hexdigest parser_trusting (blob net_alpha)
   \<and> fst (async_parser parser_trusting 3 parser_world)
        = Returned (Py_str ''Granted rights for alpha v1.0.0 to owner@example.org after parsing copy.bel'')
   \<and> map network_users (networks (stored (snd (async_parser parser_trusting 3 parser_world))))
        = [[other_user], [], []]"
  by (simp add: parser_trusting_def demo_defs parser_defs str_nat.simps digit_def get_by_def)

text \<open>
  In general the branch for an existing network computes the same result whatever
  \<^verbatim>\<open>to_bytes\<close> answers for a graph.
\<close>

lemma existing_network_ignores_uploaded_bytes:
  "existing_network
     (env\<lparr>to_bytes := (\<lambda>obj. case obj of Graph_object g \<Rightarrow> f g
                                | Network_object n \<Rightarrow> to_bytes env (Network_object n))\<rparr>)
     report graph network w
   = existing_network env report graph network w"
  by (simp add: existing_network_def finish_parsing_def make_mail_def worker_commit_def
      cong: option.case_cong if_cong)

subsection \<open>What the report records\<close>

text \<open>
  C4, on the paths that return: when \<^verbatim>\<open>async_parser\<close> starts with nothing pending in the
  session and returns a message, that message is committed in the report; when it returns
  the id of the new network, the report as \<^verbatim>\<open>fill_out_report\<close> filled it from the graph
  summary, with the elapsed time, is committed and the session is closed; when it returns
  \<^verbatim>\<open>-1\<close>, the session is rolled back and closed and the stored reports are as they
  were.
\<close>

theorem report_records_outcome:
  assumes found: "get_by report_id rid (reports (session w)) = Some report"
    and clean: "stored w = session w"
    and ret: "async_parser env rid w = (Returned v, w')"
  shows "case v of
        Py_str m \<Rightarrow>
          get_by report_id rid (reports (stored w')) = Some (report\<lparr>message := Some m\<rparr>)
      | Py_int n \<Rightarrow>
          session_closed w' \<and>
          (if n = - 1 then session w' = stored w' \<and> reports (stored w') = reports (stored w)
           else \<exists>graph network filled.
                  fill_out_report env network report (make_graph_summary env graph) = Inr filled
                \<and> n = int (network_id network)
                \<and> network \<in> set (networks (stored w'))
                \<and> filled\<lparr>report_time := Some (time_filled env - time_started env)\<rparr>
                    \<in> set (reports (stored w'))
                \<and> insertions w' = Suc (insertions w))
      | Py_none \<Rightarrow> False"
proof -
  have rid: "report_id report = rid"
    using found get_by_SomeD by fastforce
  have found': "get_by report_id (report_id report) (reports (session w)) = Some report"
    using found rid by simp
  have "outcome_recorded env report w v w'"
  proof (cases "parse_graph env report")
    case (Inl e)
    with ret found show ?thesis
      by (cases "kind e")
         (auto simp: async_parser_def intro: finish_parsing_recorded [OF _ found'])
  next
    case (Inr graph)
    with ret found show ?thesis
      by (auto simp: async_parser_def intro: check_and_store_recorded [OF _ found' clean])
  qed
  then show ?thesis
    unfolding outcome_recorded_def rid .
qed

lemma new_run:
  "fst (async_parser parser_demo 4 parser_world) = Returned (Py_int 4)"
  by (simp add: demo_defs parser_defs)

lemma report_records_outcome_at_new_upload:
  "get_by report_id 4 (reports (session parser_world)) = Some report_new
   \<and> stored parser_world = session parser_world
   \<and> fst (async_parser parser_demo 4 parser_world) = Returned (Py_int 4)
   \<and> session_closed (snd (async_parser parser_demo 4 parser_world))
   \<and> (\<exists>graph network filled.
          fill_out_report parser_demo network report_new (make_graph_summary parser_demo graph) = Inr filled
        \<and> 4 = int (network_id network)
        \<and> network \<in> set (networks (stored (snd (async_parser parser_demo 4 parser_world))))
        \<and> filled\<lparr>report_time := Some (time_filled parser_demo - time_started parser_demo)\<rparr>
              \<in> set (reports (stored (snd (async_parser parser_demo 4 parser_world))))
        \<and> insertions (snd (async_parser parser_demo 4 parser_world)) = Suc (insertions parser_world))"
proof -
  have found: "get_by report_id 4 (reports (session parser_world)) = Some report_new"
    by (simp add: demo_defs get_by_def)
  have clean: "stored parser_world = session parser_world"
    by (simp add: parser_world_def)
  have ret: "async_parser parser_demo 4 parser_world
      = (Returned (Py_int 4), snd (async_parser parser_demo 4 parser_world))"
    using new_run by (metis prod.collapse)
  show ?thesis
    using report_records_outcome [OF found clean ret] found clean new_run by simp
qed

text \<open>
  C4 does not hold of the code on a path that raises: the branch for differing hashes
  reads \<^verbatim>\<open>app.extensions['mail']\<close> without the test that \<^verbatim>\<open>make_mail\<close> makes, so without
  the mail extension the task ends with a \<^verbatim>\<open>KeyError\<close> before \<^verbatim>\<open>finish_parsing\<close> is
  reached, and the report of the failed upload keeps no message.
\<close>

theorem espionage_without_mail_raises:
  "get_by report_id 3 (reports (session parser_world)) = Some report_copy
   \<and> message report_copy = None
   \<and> async_parser parser_nomail 3 parser_world = (Raised (Exc KeyError (quoted ''mail'')), parser_world)"
  by (simp add: parser_nomail_def demo_defs parser_defs str_nat.simps digit_def)

section \<open>Theorems: \<^verbatim>\<open>merge_project\<close> and \<^verbatim>\<open>run_cmpa\<close>\<close>

text \<open>
  C6: for a project and a user that exist, \<^verbatim>\<open>merge_project\<close> takes the union of the
  project's networks, names it with the UUID and gives it the version \<^verbatim>\<open>'1.0.0'\<close>, and
  then does one of two things and not the other: without the mail extension it writes the
  graph to \<^verbatim>\<open>PYBEL_DATA_DIR/<uuid>.bel\<close> and returns \<^verbatim>\<open>None\<close>; with it, it sends the
  lines of the graph to the user as the attachment \<^verbatim>\<open>merged.bel\<close> and returns \<^verbatim>\<open>1\<close>.
  The database is not changed.
\<close>

theorem merge_project_one_effect:
  assumes "get_by project_id pid (projects (session w)) = Some project"
    and "mail_in_extensions env \<longrightarrow> get_by user_id uid (users (session w)) = Some user"
  shows "fst (merge_project env uid pid w)
           = (if mail_in_extensions env then Returned (Py_int 1) else Returned Py_none)
       \<and> files (snd (merge_project env uid pid w))
           = files w @ (if mail_in_extensions env then []
                        else [(os_path_join (PYBEL_DATA_DIR env) (uuid4 env @ ''.bel''),
                               merged_graph env project)])
       \<and> outbox (snd (merge_project env uid pid w))
           = outbox w @ (if mail_in_extensions env
                         then [\<lparr>subject = ''Merged '' @ project_name project @ '' BEL'',
                                 recipients = [email user],
                                 body = ''The BEL documents from '' @ project_name project
                                   @ '' were merged. The resulting BEL script is attached'',
                                 sender = pbw_sender,
                                 attachments = [(''merged.bel'', ''text/plain'',
                                    join [CHR 0x0A] (to_bel_lines env (merged_graph env project)))]\<rparr>]
                         else [])
       \<and> session (snd (merge_project env uid pid w)) = session w
       \<and> stored (snd (merge_project env uid pid w)) = stored w"
  using assms by (simp add: merge_project_def merged_graph_def Let_def str_opt_def)

theorem merge_project_one_effect_witness:
  "get_by project_id 5 (projects (session task_world)) = Some project_demo
   \<and> get_by user_id 7 (users (session task_world)) = Some plain_user
   \<and> fst (merge_project merge_demo 7 5 task_world) = Returned (Py_int 1)
   \<and> files (snd (merge_project merge_demo 7 5 task_world)) = []
   \<and> map recipients (outbox (snd (merge_project merge_demo 7 5 task_world))) = [[''reader@example.org'']]
   \<and> map attachments (outbox (snd (merge_project merge_demo 7 5 task_world)))
        = [[(''merged.bel'', ''text/plain'', ''statements of alpha'' @ [CHR 0x0A] @ ''statements of beta'')]]
   \<and> fst (merge_project merge_nomail 7 5 task_world) = Returned Py_none
   \<and> outbox (snd (merge_project merge_nomail 7 5 task_world)) = []
   \<and> map fst (files (snd (merge_project merge_nomail 7 5 task_world)))
        = [''/home/pybel/.pybel/data/16fd2706-8baf-433b-82eb-8c7fada847da.bel'']"
  using merge_project_one_effect [of 5 task_world project_demo merge_demo 7 plain_user]
    merge_project_one_effect [of 5 task_world project_demo merge_nomail 7 plain_user]
  by (simp add: task_world_def task_db_def world_demo_def db_demo_def merge_demo_def merge_nomail_def
      project_demo_def plain_user_def other_user_def get_by_def merged_graph_def os_path_join_def
      net_alpha_def net_beta_def)

text \<open>
  C7 does not hold of the code: after a commit that succeeds, the \<^verbatim>\<open>finally\<close> clause
  closes the session, and the message is then built from \<^verbatim>\<open>experiment.query_id\<close>, an
  attribute that the commit has expired and that the detached row can no longer load. The
  task ends with a \<^verbatim>\<open>DetachedInstanceError\<close>: the scores are stored, but no mail is sent
  and the experiment id is not returned.
\<close>

theorem run_cmpa_detached_after_close:
  "get_by experiment_id 6 (experiments (session task_world)) = Some experiment_demo
   \<and> commit_raises cmpa_demo (commits task_world) = None
   \<and> mail_in_extensions cmpa_demo
   \<and> fst (run_cmpa cmpa_demo 6 task_world)
        = Raised (Exc DetachedInstanceError
            ''Instance is not bound to a Session; attribute refresh operation cannot proceed'')
   \<and> outbox (snd (run_cmpa cmpa_demo 6 task_world)) = []
   \<and> get_by experiment_id 6 (experiments (stored (snd (run_cmpa cmpa_demo 6 task_world))))
        = Some (experiment_demo\<lparr>result := Some [5], completed := True\<rparr>)"
  by (simp add: run_cmpa_def gene_data_def read_after_commit_def worker_commit_def
      session_commit_def session_close_def session_rollback_def get_by_def update_by_def
      cmpa_demo_def task_world_def task_db_def world_demo_def db_demo_def experiment_demo_def
      query_demo_def plain_user_def Let_def)

text \<open>
  In general, for an experiment that exists and whose source has both columns:
  \<^verbatim>\<open>run_cmpa\<close> hands the graph of the query and the data to \<^verbatim>\<open>calculate_scores\<close>, sets
  \<^verbatim>\<open>result\<close> to the pickled scores and \<^verbatim>\<open>completed\<close> to true and commits. If the commit
  raises it rolls back, sends nothing and returns \<^verbatim>\<open>-1\<close>, as C7 says; otherwise the row is
  stored with both fields and the task raises, with no mail sent. The session is closed
  either way.
\<close>

lemma run_cmpa_paths:
  assumes found: "get_by experiment_id eid (experiments (session w)) = Some experiment"
    and data: "gene_data (loads env (experiment_source experiment))
                 (gene_column experiment) (data_column experiment) = Inr data"
  shows "outbox (snd (run_cmpa env eid w)) = outbox w
       \<and> session_closed (snd (run_cmpa env eid w))
       \<and> (case commit_raises env (commits w) of
             Some e \<Rightarrow>
               fst (run_cmpa env eid w) = Returned (Py_int (- 1))
               \<and> session (snd (run_cmpa env eid w)) = stored w
               \<and> stored (snd (run_cmpa env eid w)) = stored w
           | None \<Rightarrow>
               (\<exists>m. fst (run_cmpa env eid w) = Raised (Exc DetachedInstanceError m))
               \<and> get_by experiment_id eid (experiments (stored (snd (run_cmpa env eid w))))
                   = Some (experiment\<lparr>result := Some (dumps env (cmpa_scores env experiment data w)),
                                       completed := True\<rparr>))"
proof -
  have eid: "experiment_id experiment = eid"
    using found get_by_SomeD by fastforce
  show ?thesis
  proof (cases "commit_raises env (commits w)")
    case (Some e)
    then show ?thesis
      using found data
      by (simp add: run_cmpa_def Let_def worker_commit_def session_commit_def)
  next
    case None
    then show ?thesis
      using found data
      by (simp add: run_cmpa_def Let_def worker_commit_def session_commit_def eid
          get_by_update_by cmpa_scores_def read_after_commit_def)
  qed
qed

lemma run_cmpa_commit_raises:
  "fst (run_cmpa cmpa_failing 6 task_world) = Returned (Py_int (- 1))
   \<and> outbox (snd (run_cmpa cmpa_failing 6 task_world)) = []
   \<and> session (snd (run_cmpa cmpa_failing 6 task_world)) = stored task_world"
  by (simp add: run_cmpa_def gene_data_def read_after_commit_def worker_commit_def
      session_commit_def session_close_def session_rollback_def get_by_def update_by_def
      cmpa_failing_def cmpa_demo_def task_world_def task_db_def world_demo_def db_demo_def
      experiment_demo_def query_demo_def plain_user_def Let_def)

end
